theory Spec2Isabelle
  imports Complex_Main "HOL-Library.AList"
begin

section \<open>Values, exceptions and the data model of \<^verbatim>\<open>plugins/base.py\<close>\<close>

text \<open>
  Python values that occur in configurations and property maps (\<^verbatim>\<open>Dict[str, Any]\<close>).
  A dictionary is an association list with distinct keys, in insertion order, as a
  Python \<^verbatim>\<open>dict\<close> is: \<open>AList.update\<close> overwrites in place or appends,
  \<open>AList.delete\<close> removes, \<open>map_of\<close> looks up.
\<close>

datatype pyval = VNone | VBool bool | VInt int | VFloat rat | VStr string

type_synonym pydict = "(string \<times> pyval) list"

text \<open>Truth value of a Python value, as \<^verbatim>\<open>not x\<close> tests it.\<close>

fun truthy :: "pyval \<Rightarrow> bool" where
  "truthy VNone = False"
| "truthy (VBool b) = b"
| "truthy (VInt i) = (i \<noteq> 0)"
| "truthy (VFloat x) = (x \<noteq> 0)"
| "truthy (VStr s) = (s \<noteq> [])"

text \<open>\<^verbatim>\<open>d.get(k, default)\<close>\<close>

definition dict_get :: "('k \<times> 'v) list \<Rightarrow> 'k \<Rightarrow> 'v \<Rightarrow> 'v" where
  "dict_get d k dflt = (case map_of d k of None \<Rightarrow> dflt | Some v \<Rightarrow> v)"

text \<open>
  The instances of \<^verbatim>\<open>Exception\<close>: every handler of the source is
  \<^verbatim>\<open>except Exception\<close>, so these are the failures it can catch. \<open>NameError n\<close> is
  what the interpreter raises when the name \<open>n\<close> is not bound, \<open>AttributeError a\<close> when
  the object has no attribute \<open>a\<close>, \<open>TypeError msg\<close> when an operator meets operands it
  does not support, \<open>KeyError k\<close> when a dictionary has no key \<open>k\<close>; \<open>Raised msg\<close> stands
  for any other exception, with its message.
\<close>

datatype py_exception =
  NameError string | AttributeError string | TypeError string | KeyError string
  | Raised string

text \<open>\<^verbatim>\<open>str(e)\<close>\<close>

fun str :: "py_exception \<Rightarrow> string" where
  "str (NameError n) = ''name '' @ [CHR 0x27] @ n @ [CHR 0x27] @ '' is not defined''"
| "str (AttributeError a) = ''object has no attribute '' @ [CHR 0x27] @ a @ [CHR 0x27]"
| "str (TypeError msg) = msg"
| "str (KeyError k) = [CHR 0x27] @ k @ [CHR 0x27]"
| "str (Raised msg) = msg"

datatype plugin_type =
  LIGHT | SENSOR | SWITCH | CLIMATE | SECURITY | MULTIMEDIA | GATEWAY | CUSTOM

datatype plugin_status = LOADED | RUNNING | STOPPED | ERROR | DISABLED

datatype device_capability =
  ON_OFF | BRIGHTNESS | COLOR | TEMPERATURE | HUMIDITY | MOTION | DOOR_WINDOW
  | VOLUME | CHANNEL

text \<open>
  \<^verbatim>\<open>PluginInfo\<close>. The configuration schema maps an option name to its type and its
  \<^verbatim>\<open>required\<close> flag.
\<close>

record plugin_info =
  name :: string
  version :: string
  description :: string
  author :: string
  plugin_type :: plugin_type
  supported_devices :: "string list"
  info_capabilities :: "device_capability list"
  dependencies :: "string list"
  config_schema :: "(string \<times> string \<times> bool) list"

text \<open>
  \<^verbatim>\<open>DeviceInfo\<close>; its fields \<^verbatim>\<open>id\<close>, \<^verbatim>\<open>name\<close> and \<^verbatim>\<open>properties\<close> are
  \<open>dev_id\<close>, \<open>dev_name\<close> and \<open>dev_properties\<close> here.
\<close>

record device_info =
  dev_id :: string
  dev_name :: string
  manufacturer :: "string option"
  model :: "string option"
  firmware_version :: "string option"
  capabilities :: "device_capability list"
  dev_properties :: pydict
  room :: "string option"

text \<open>
  \<^verbatim>\<open>DeviceState\<close>. \<open>last_updated\<close> is the reading of the system clock that
  \<^verbatim>\<open>datetime.utcnow()\<close> returned (the source stores its ISO rendering).
\<close>

record device_state =
  device_id :: string
  properties :: pydict
  last_updated :: nat
  online :: bool

text \<open>The payload of an event, one constructor for each shape the source builds.\<close>

datatype event_data =
  DeviceAdded device_info
  | DeviceRemoved string
  | StateChanged device_state
  | ActionExecuted string string pydict bool
  | ErrorData string
  | DeviceCalibrated string

record event =
  ev_plugin :: string
  ev_type :: string
  ev_data :: event_data
  ev_timestamp :: string

subsection \<open>Subscribers\<close>

text \<open>
  A subscriber is a callable of the embedding application. The model keeps what the event
  bus depends on: its identity \<open>hid\<close> (Python compares callables by identity), the
  calls it makes to \<^verbatim>\<open>add_event_handler\<close> and \<^verbatim>\<open>remove_event_handler\<close> of the
  emitting instance while it runs, in order, and whether it then returns or raises.
  A subscriber registered by another one is described in the same way, so no subscriber
  registers itself again during its own run. Subscribers leave the rest of the instance,
  its registry included, alone: the registry belongs to the instance.
\<close>

datatype handler =
  Handler (hid: nat) (hcalls: "hcall list") (hraises: "py_exception option")
and hcall =
  AddHandler handler
  | RemoveHandler nat

text \<open>
  \<^verbatim>\<open>BasePlugin\<close>. \<open>info\<close> is the value of the abstract property of the same name,
  \<open>attrs\<close> holds the attributes a subclass adds to the object, and \<open>calls\<close> is not a
  field of the object: it records every invocation of a subscriber, with the event
  passed, in the order they happened.
\<close>

record plugin =
  info :: plugin_info
  config :: pydict
  status :: plugin_status
  devices :: "(string \<times> device_info) list"
  device_states :: "(string \<times> device_state) list"
  event_handlers :: "handler list"
  running :: bool
  attrs :: pydict
  calls :: "(nat \<times> event) list"

subsection \<open>Statements that may raise\<close>

text \<open>
  A method body is a function from the object to an outcome, \<open>Inl\<close> an exception and
  \<open>Inr\<close> a returned value, together with the object as the body left it.
\<close>

type_synonym 'r body = "plugin \<Rightarrow> (py_exception + 'r) \<times> plugin"

definition returns :: "'r \<Rightarrow> 'r body" where
  "returns r p = (Inr r, p)"

definition raises :: "py_exception \<Rightarrow> 'r body" where
  "raises e p = (Inl e, p)"

text \<open>Sequencing: an exception of the first statement skips the rest.\<close>

definition and_then :: "'a body \<Rightarrow> ('a \<Rightarrow> 'b body) \<Rightarrow> 'b body" where
  "and_then f g p = (case f p of (Inl e, p') \<Rightarrow> (Inl e, p') | (Inr a, p') \<Rightarrow> g a p')"

text \<open>\<^verbatim>\<open>try: f  except Exception as e: h e\<close>\<close>

definition try_except :: "'a body \<Rightarrow> (py_exception \<Rightarrow> 'a body) \<Rightarrow> 'a body" where
  "try_except f h p = (case f p of (Inl e, p') \<Rightarrow> h e p' | (Inr a, p') \<Rightarrow> (Inr a, p'))"

section \<open>The event bus\<close>

definition add_event_handler :: "handler \<Rightarrow> plugin \<Rightarrow> plugin" where
  "add_event_handler h p = p\<lparr>event_handlers := event_handlers p @ [h]\<rparr>"

text \<open>\<^verbatim>\<open>list.remove\<close>: the first occurrence goes, nothing happens when there is none.\<close>

fun remove_first :: "nat \<Rightarrow> handler list \<Rightarrow> handler list" where
  "remove_first i [] = []"
| "remove_first i (h # hs) = (if hid h = i then hs else h # remove_first i hs)"

definition remove_event_handler :: "nat \<Rightarrow> plugin \<Rightarrow> plugin" where
  "remove_event_handler i p =
     (if i \<in> hid ` set (event_handlers p)
      then p\<lparr>event_handlers := remove_first i (event_handlers p)\<rparr> else p)"

fun apply_hcall :: "hcall \<Rightarrow> plugin \<Rightarrow> plugin" where
  "apply_hcall (AddHandler h) p = add_event_handler h p"
| "apply_hcall (RemoveHandler i) p = remove_event_handler i p"

text \<open>
  Calling a subscriber: the call is recorded, the subscriber makes its calls on the
  instance's subscriber list, then returns or raises.
\<close>

definition invoke :: "handler \<Rightarrow> event \<Rightarrow> unit body" where
  "invoke h ev p =
     (let p1 = p\<lparr>calls := calls p @ [(hid h, ev)]\<rparr>;
          p2 = fold apply_hcall (hcalls h) p1
      in case hraises h of None \<Rightarrow> (Inr (), p2) | Some e \<Rightarrow> (Inl e, p2))"

text \<open>
  The weight of a subscriber counts it and the subscribers it can register; the weight
  of the subscribers not yet reached decreases with every iteration of the loop below.
\<close>

fun weight :: "handler \<Rightarrow> nat" and cweight :: "hcall \<Rightarrow> nat" where
  "weight (Handler i cs r) = Suc (sum_list (map cweight cs))"
| "cweight (AddHandler h) = weight h"
| "cweight (RemoveHandler i) = 0"

definition pending :: "nat \<Rightarrow> handler list \<Rightarrow> nat" where
  "pending i hs = sum_list (map weight (drop i hs))"

lemma pending_remove_first: "pending j (remove_first x hs) \<le> pending j hs"
proof (induction hs arbitrary: j)
  case Nil
  then show ?case by (simp add: pending_def)
next
  case (Cons h hs)
  show ?case
  proof (cases j)
    case 0
    with Cons [of 0] show ?thesis by (simp add: pending_def)
  next
    case (Suc k)
    have "pending k (drop 1 hs) \<le> pending k hs"
      by (induction hs arbitrary: k) (auto simp: pending_def drop_Cons split: nat.splits
          intro: le_trans)
    with Cons [of k] Suc show ?thesis
      by (auto simp: pending_def drop_Cons split: nat.splits)
  qed
qed

lemma pending_apply_hcall:
  "pending j (event_handlers (apply_hcall c p)) \<le> pending j (event_handlers p) + cweight c"
proof (cases c)
  case (AddHandler h)
  have "pending j (hs @ [h]) \<le> pending j hs + weight h" for hs
    by (cases "j - length hs") (simp_all add: pending_def)
  with AddHandler show ?thesis by (simp add: add_event_handler_def)
next
  case (RemoveHandler i)
  with pending_remove_first [of j i "event_handlers p"] show ?thesis
    by (simp add: remove_event_handler_def)
qed

lemma pending_fold_hcalls:
  "pending j (event_handlers (fold apply_hcall cs p))
     \<le> pending j (event_handlers p) + sum_list (map cweight cs)"
proof (induction cs arbitrary: p)
  case Nil
  then show ?case by simp
next
  case (Cons c cs)
  from Cons [of "apply_hcall c p"] pending_apply_hcall [of j c p]
  show ?case by simp
qed

lemma calls_upd_handlers [simp]: "event_handlers (p\<lparr>calls := t\<rparr>) = event_handlers p"
  by simp

lemma pending_invoke:
  assumes "i < length (event_handlers p)"
  shows "pending (Suc i) (event_handlers (snd (invoke (event_handlers p ! i) ev p)))
           < pending i (event_handlers p)"
proof -
  let ?h = "event_handlers p ! i"
  have w: "weight ?h = Suc (sum_list (map cweight (hcalls ?h)))"
    by (cases ?h) simp
  have "pending i (event_handlers p) = weight ?h + pending (Suc i) (event_handlers p)"
    using assms by (simp add: pending_def Cons_nth_drop_Suc [symmetric])
  moreover have "event_handlers (snd (invoke ?h ev p))
      = event_handlers (fold apply_hcall (hcalls ?h) (p\<lparr>calls := calls p @ [(hid ?h, ev)]\<rparr>))"
    by (simp add: invoke_def Let_def split: option.splits)
  ultimately show ?thesis
    using pending_fold_hcalls [of "Suc i" "hcalls ?h" "p\<lparr>calls := calls p @ [(hid ?h, ev)]\<rparr>"] w
    by simp
qed

lemma emit_step_decreases:
  assumes "i < length (event_handlers p)"
    and "(r, y) = try_except (invoke (event_handlers p ! i) ev) (\<lambda>e. returns ()) p"
  shows "pending (Suc i) (event_handlers y) < pending i (event_handlers p)"
proof -
  from assms(2) have "y = snd (invoke (event_handlers p ! i) ev p)"
    by (auto simp: try_except_def returns_def split: prod.splits sum.splits)
  with pending_invoke [OF assms(1), of ev] show ?thesis by simp
qed

text \<open>
  The loop of \<^verbatim>\<open>_emit_event\<close>: \<^verbatim>\<open>for handler in self._event_handlers\<close> walks the
  list object itself by position, so it sees what the subscribers did to it. An
  exception of a subscriber is caught and dropped (\<^verbatim>\<open>pass\<close>).
\<close>

function emit_loop :: "event \<Rightarrow> nat \<Rightarrow> unit body" where
  "emit_loop ev i p =
     (if i < length (event_handlers p)
      then case try_except (invoke (event_handlers p ! i) ev) (\<lambda>e. returns ()) p of
             (Inl e, p') \<Rightarrow> (Inl e, p')
           | (Inr u, p') \<Rightarrow> emit_loop ev (Suc i) p'
      else (Inr (), p))"
  by pat_completeness auto
termination
  by (relation "measure (\<lambda>(ev, i, p). pending i (event_handlers p))")
    (auto intro: emit_step_decreases)

declare emit_loop.simps [simp del]

text \<open>
  \<^verbatim>\<open>_emit_event\<close>: the event carries the plugin's name and the fixed timestamp of
  the source.
\<close>

definition make_event :: "plugin \<Rightarrow> string \<Rightarrow> event_data \<Rightarrow> event" where
  "make_event p event_type data =
     \<lparr>ev_plugin = name (info p), ev_type = event_type, ev_data = data,
      ev_timestamp = ''2024-01-01T00:00:00Z''\<rparr>"

definition emit_event :: "string \<Rightarrow> event_data \<Rightarrow> unit body" where
  "emit_event event_type data p = emit_loop (make_event p event_type data) 0 p"


section \<open>The device registry of \<^verbatim>\<open>BasePlugin\<close>\<close>

text \<open>\<^verbatim>\<open>BasePlugin.__init__\<close>, with \<^verbatim>\<open>config or {}\<close>.\<close>

definition BasePlugin_init :: "plugin_info \<Rightarrow> pydict option \<Rightarrow> plugin" where
  "BasePlugin_init i cfg =
     \<lparr>info = i, config = (case cfg of None \<Rightarrow> [] | Some c \<Rightarrow> c), status = LOADED,
      devices = [], device_states = [], event_handlers = [], running = False,
      attrs = [], calls = []\<rparr>"

text \<open>An assignment to fields of the object: it cannot raise.\<close>

definition modify :: "(plugin \<Rightarrow> plugin) \<Rightarrow> unit body" where
  "modify f p = (Inr (), f p)"

text \<open>\<^verbatim>\<open>k in d\<close>\<close>

definition has_key :: "('k \<times> 'v) list \<Rightarrow> 'k \<Rightarrow> bool" where
  "has_key d k = (k \<in> fst ` set d)"

definition add_device :: "device_info \<Rightarrow> bool body" where
  "add_device device =
     try_except
       (and_then (modify (\<lambda>p. p\<lparr>devices := AList.update (dev_id device) device (devices p)\<rparr>))
         (\<lambda>_. and_then (emit_event ''device_added'' (DeviceAdded device))
           (\<lambda>_. returns True)))
       (\<lambda>e. and_then (emit_event ''error'' (ErrorData (str e))) (\<lambda>_. returns False))"

definition remove_device :: "string \<Rightarrow> bool body" where
  "remove_device i =
     try_except
       (\<lambda>p. if has_key (devices p) i
            then and_then (modify (\<lambda>p. p\<lparr>devices := AList.delete i (devices p)\<rparr>))
                   (\<lambda>_. and_then
                      (modify (\<lambda>p. if has_key (device_states p) i
                                    then p\<lparr>device_states := AList.delete i (device_states p)\<rparr>
                                    else p))
                      (\<lambda>_. and_then (emit_event ''device_removed'' (DeviceRemoved i))
                         (\<lambda>_. returns True))) p
            else returns False p)
       (\<lambda>e. and_then (emit_event ''error'' (ErrorData (str e))) (\<lambda>_. returns False))"

definition get_device_state :: "string \<Rightarrow> plugin \<Rightarrow> device_state option" where
  "get_device_state i p = map_of (device_states p) i"

text \<open>
  \<^verbatim>\<open>update_device_state\<close>; \<open>now\<close> is what \<^verbatim>\<open>datetime.utcnow()\<close> returns during
  the call.
\<close>

definition update_device_state :: "nat \<Rightarrow> string \<Rightarrow> pydict \<Rightarrow> bool body" where
  "update_device_state now i props =
     try_except
       (\<lambda>p. if \<not> has_key (devices p) i then returns False p
            else let state = \<lparr>device_id = i, properties = props, last_updated = now,
                               online = True\<rparr>
                 in and_then
                      (modify (\<lambda>p. p\<lparr>device_states := AList.update i state (device_states p)\<rparr>))
                      (\<lambda>_. and_then (emit_event ''state_changed'' (StateChanged state))
                         (\<lambda>_. returns True)) p)
       (\<lambda>e. and_then (emit_event ''error'' (ErrorData (str e))) (\<lambda>_. returns False))"

text \<open>
  \<^verbatim>\<open>execute_action\<close>; \<open>impl\<close> is the subclass's \<^verbatim>\<open>_execute_device_action\<close>, and
  \<^verbatim>\<open>parameters or {}\<close> is the optional argument.
\<close>

definition execute_action ::
  "(string \<Rightarrow> string \<Rightarrow> pydict \<Rightarrow> bool body) \<Rightarrow> string \<Rightarrow> string \<Rightarrow> pydict option \<Rightarrow> bool body"
where
  "execute_action impl i action parameters p =
     (if \<not> has_key (devices p) i then returns False p
      else let ps = (case parameters of None \<Rightarrow> [] | Some d \<Rightarrow> d)
           in try_except
                (and_then (impl i action ps)
                  (\<lambda>result. and_then
                     (emit_event ''action_executed'' (ActionExecuted i action ps result))
                     (\<lambda>_. returns result)))
                (\<lambda>e. and_then (emit_event ''error'' (ErrorData (str e)))
                       (\<lambda>_. returns False)) p)"

record health =
  h_status :: plugin_status
  devices_count :: nat
  online_devices :: nat
  last_check :: string

definition health_check :: "plugin \<Rightarrow> health" where
  "health_check p =
     \<lparr>h_status = status p, devices_count = length (devices p),
      online_devices = length (filter online (map snd (device_states p))),
      last_check = ''2024-01-01T00:00:00Z''\<rparr>"

section \<open>Facts about emission\<close>

text \<open>What a body leaves alone: everything but the subscriber list and the record of calls.\<close>

definition bus_only :: "plugin \<Rightarrow> plugin \<Rightarrow> bool" where
  "bus_only p q = (q = p\<lparr>event_handlers := event_handlers q, calls := calls q\<rparr>)"

lemma bus_only_refl: "bus_only p p"
  by (simp add: bus_only_def)

lemma bus_only_trans: "bus_only p q \<Longrightarrow> bus_only q r \<Longrightarrow> bus_only p r"
  unfolding bus_only_def by (cases p, cases q, cases r) simp

lemma bus_only_fields:
  assumes "bus_only p q"
  shows "devices q = devices p" "device_states q = device_states p" "status q = status p"
    "info q = info p" "config q = config p" "attrs q = attrs p" "running q = running p"
  using assms unfolding bus_only_def by (cases p, cases q, simp)+

lemma bus_only_apply_hcall: "bus_only p (apply_hcall c p)"
  by (cases c) (simp_all add: bus_only_def add_event_handler_def remove_event_handler_def)

lemma bus_only_fold_hcalls: "bus_only p (fold apply_hcall cs p)"
proof (induction cs arbitrary: p)
  case Nil
  show ?case by (simp add: bus_only_refl)
next
  case (Cons c cs)
  from bus_only_trans [OF bus_only_apply_hcall Cons] show ?case by simp
qed

lemma bus_only_invoke: "bus_only p (snd (invoke h ev p))"
proof -
  have "bus_only p (p\<lparr>calls := calls p @ [(hid h, ev)]\<rparr>)"
    by (simp add: bus_only_def)
  from bus_only_trans [OF this bus_only_fold_hcalls]
  show ?thesis by (simp add: invoke_def Let_def split: option.splits)
qed

lemma try_invoke:
  "try_except (invoke h ev) (\<lambda>e. returns ()) p = (Inr (), snd (invoke h ev p))"
  by (simp add: try_except_def returns_def split: prod.splits sum.splits)

lemma emit_loop_unfold:
  "emit_loop ev i p =
     (if i < length (event_handlers p)
      then emit_loop ev (Suc i) (snd (invoke (event_handlers p ! i) ev p))
      else (Inr (), p))"
  by (subst emit_loop.simps) (simp add: try_invoke)

lemma emit_loop_returns: "fst (emit_loop ev i p) = Inr ()"
proof (induction ev i p rule: emit_loop.induct)
  case (1 ev i p)
  show ?case
  proof (cases "i < length (event_handlers p)")
    case True
    with "1.IH" [OF True try_invoke [symmetric] refl] show ?thesis
      by (subst emit_loop_unfold) simp
  next
    case False
    then show ?thesis by (subst emit_loop_unfold) simp
  qed
qed

lemma bus_only_emit_loop: "bus_only p (snd (emit_loop ev i p))"
proof (induction ev i p rule: emit_loop.induct)
  case (1 ev i p)
  show ?case
  proof (cases "i < length (event_handlers p)")
    case True
    from "1.IH" [OF True try_invoke [symmetric] refl] bus_only_invoke [of p "event_handlers p ! i" ev] True
    show ?thesis
      by (subst emit_loop_unfold) (auto intro: bus_only_trans)
  next
    case False
    then show ?thesis by (subst emit_loop_unfold) (simp add: bus_only_refl)
  qed
qed

lemma emit_event_returns: "fst (emit_event t d p) = Inr ()"
  by (simp add: emit_event_def emit_loop_returns)

lemma bus_only_emit_event: "bus_only p (snd (emit_event t d p))"
  by (simp add: emit_event_def bus_only_emit_loop)

lemma emit_event_eq: "emit_event t d p = (Inr (), snd (emit_event t d p))"
  using emit_event_returns [of t d p] by (cases "emit_event t d p") simp


section \<open>The example integrations\<close>

subsection \<open>Names and attributes\<close>

text \<open>
  A module-level name is looked up when the statement that mentions it runs, in the
  names the module has bound: those it imports and those it defines. A name that is
  not among them raises \<^verbatim>\<open>NameError\<close>.
\<close>

definition load_global :: "string list \<Rightarrow> string \<Rightarrow> unit body" where
  "load_global globals n = (if n \<in> set globals then returns () else raises (NameError n))"

text \<open>
  \<^verbatim>\<open>self.status = PluginStatus.X\<close>: the right-hand side is evaluated first, so there
  is no assignment when the name is unbound.
\<close>

definition set_status :: "string list \<Rightarrow> plugin_status \<Rightarrow> unit body" where
  "set_status globals s =
     and_then (load_global globals ''PluginStatus'') (\<lambda>_. modify (\<lambda>p. p\<lparr>status := s\<rparr>))"

text \<open>Reading an attribute that a subclass added to the object.\<close>

definition attr :: "string \<Rightarrow> pyval body" where
  "attr a p = (case map_of (attrs p) a of None \<Rightarrow> raises (AttributeError a) p
                                          | Some v \<Rightarrow> returns v p)"

text \<open>
  \<^verbatim>\<open>asyncio.create_task(coro)\<close> queues the coroutine; its body does not run before the
  caller reaches its next suspension point, and \<^verbatim>\<open>start\<close> has none after it.
\<close>

definition create_task :: "unit body" where
  "create_task = returns ()"

text \<open>\<open>e\<close> with a grave and with an acute accent, in UTF-8.\<close>

definition e_grave :: string where
  "e_grave = [CHR 0xC3, CHR 0xA8]"

definition e_acute :: string where
  "e_acute = [CHR 0xC3, CHR 0xA9]"

subsection \<open>\<^verbatim>\<open>examples/philips_hue.py\<close>\<close>

text \<open>
  The names bound in the module: its imports
  (\<^verbatim>\<open>from ..base import BasePlugin, PluginInfo, PluginType, DeviceCapability, DeviceInfo\<close>)
  and the class it defines.
\<close>

definition philips_hue_globals :: "string list" where
  "philips_hue_globals =
     [''asyncio'', ''Any'', ''Dict'', ''List'', ''BasePlugin'', ''PluginInfo'',
      ''PluginType'', ''DeviceCapability'', ''DeviceInfo'', ''PhilipsHuePlugin'']"

definition philips_hue_info :: plugin_info where
  "philips_hue_info =
     \<lparr>name = ''philips_hue'', version = ''1.0.0'',
      description = ''Plugin pour les lumi'' @ e_grave @ ''res Philips Hue'',
      author = ''DomoHub Team'', plugin_type = LIGHT,
      supported_devices = [''Hue White'', ''Hue Color'', ''Hue Ambiance''],
      info_capabilities = [ON_OFF, BRIGHTNESS, COLOR],
      dependencies = [''aiohttp''],
      config_schema = [(''bridge_ip'', ''string'', True), (''username'', ''string'', True)]\<rparr>"

definition PhilipsHuePlugin_init :: "pydict option \<Rightarrow> plugin" where
  "PhilipsHuePlugin_init cfg =
     (let p = BasePlugin_init philips_hue_info cfg
      in p\<lparr>attrs := [(''bridge_ip'', dict_get (config p) ''bridge_ip'' (VStr ''192.168.1.100'')),
                     (''username'', dict_get (config p) ''username'' (VStr [])),
                     (''_client'', VNone)]\<rparr>)"

definition hue_initialize :: "string list \<Rightarrow> bool body" where
  "hue_initialize globals =
     try_except
       (and_then (load_global globals ''asyncio'')
         (\<lambda>_. and_then (attr ''bridge_ip'')
           (\<lambda>bridge_ip. if \<not> truthy bridge_ip then returns False
              else and_then (attr ''username'')
                (\<lambda>username. if \<not> truthy username then returns False
                   else and_then (set_status globals LOADED) (\<lambda>_. returns True)))))
       (\<lambda>e. and_then (set_status globals ERROR) (\<lambda>_. returns False))"

definition hue_start :: "string list \<Rightarrow> bool body" where
  "hue_start globals =
     try_except
       (and_then (load_global globals ''asyncio'')
         (\<lambda>_. and_then create_task
           (\<lambda>_. and_then (set_status globals RUNNING) (\<lambda>_. returns True))))
       (\<lambda>e. and_then (set_status globals ERROR) (\<lambda>_. returns False))"

definition hue_stop :: "string list \<Rightarrow> bool body" where
  "hue_stop globals =
     try_except
       (and_then (set_status globals STOPPED) (\<lambda>_. returns True))
       (\<lambda>e. returns False)"

definition hue_devices :: "pyval \<Rightarrow> device_info list" where
  "hue_devices bridge_ip =
     [\<lparr>dev_id = ''hue_light_001'', dev_name = ''Lumi'' @ e_grave @ ''re Salon Hue'',
       manufacturer = Some ''Philips'', model = Some ''Hue White and Color'',
       firmware_version = Some ''1.2.3'', capabilities = [ON_OFF, BRIGHTNESS, COLOR],
       dev_properties = [(''bridge_ip'', bridge_ip)], room = Some ''salon''\<rparr>,
      \<lparr>dev_id = ''hue_light_002'', dev_name = ''Lumi'' @ e_grave @ ''re Chambre Hue'',
       manufacturer = Some ''Philips'', model = Some ''Hue White'',
       firmware_version = Some ''1.1.0'', capabilities = [ON_OFF, BRIGHTNESS],
       dev_properties = [(''bridge_ip'', bridge_ip)], room = Some ''chambre''\<rparr>]"

fun hue_register :: "nat \<Rightarrow> device_info list \<Rightarrow> unit body" where
  "hue_register now [] = returns ()"
| "hue_register now (device # rest) =
     and_then (add_device device)
       (\<lambda>_. and_then
          (update_device_state now (dev_id device)
             [(''power'', VBool False), (''brightness'', VInt 0), (''color'', VStr ''#FFFFFF'')])
          (\<lambda>_. hue_register now rest))"

definition hue_discover_devices :: "nat \<Rightarrow> device_info list body" where
  "hue_discover_devices now =
     try_except
       (and_then (attr ''bridge_ip'')
         (\<lambda>bridge_ip. and_then (hue_register now (hue_devices bridge_ip))
            (\<lambda>_. returns (hue_devices bridge_ip))))
       (\<lambda>e. returns [])"

text \<open>\<^verbatim>\<open>max(0, min(100, brightness))\<close> on the values of the model.\<close>

fun clamp_brightness :: "pyval \<Rightarrow> py_exception + pyval" where
  "clamp_brightness (VInt i) = Inr (VInt (if 0 < (if i < 100 then i else 100)
                                          then (if i < 100 then i else 100) else 0))"
| "clamp_brightness (VFloat x) =
     Inr (if x < 100 then (if 0 < x then VFloat x else VInt 0) else VInt 100)"
| "clamp_brightness (VBool b) = Inr (if b then VBool True else VInt 0)"
| "clamp_brightness VNone = Inl (TypeError ''unsupported operand types'')"
| "clamp_brightness (VStr s) = Inl (TypeError ''unsupported operand types'')"

definition hue_execute_device_action ::
  "nat \<Rightarrow> string \<Rightarrow> string \<Rightarrow> pydict \<Rightarrow> bool body"
where
  "hue_execute_device_action now i action parameters =
     try_except
       (if action = ''turn_on'' then
          and_then
            (update_device_state now i
               [(''power'', VBool True),
                (''brightness'', dict_get parameters ''brightness'' (VInt 100)),
                (''color'', dict_get parameters ''color'' (VStr ''#FFFFFF''))])
            (\<lambda>_. returns True)
        else if action = ''turn_off'' then
          and_then
            (update_device_state now i [(''power'', VBool False), (''brightness'', VInt 0)])
            (\<lambda>_. returns True)
        else if action = ''set_brightness'' then
          (case clamp_brightness (dict_get parameters ''brightness'' (VInt 50)) of
             Inl e \<Rightarrow> raises e
           | Inr b \<Rightarrow> and_then (update_device_state now i [(''brightness'', b)])
                        (\<lambda>_. returns True))
        else if action = ''set_color'' then
          and_then
            (update_device_state now i
               [(''color'', dict_get parameters ''color'' (VStr ''#FFFFFF'')),
                (''power'', VBool True)])
            (\<lambda>_. returns True)
        else returns False)
       (\<lambda>e. returns False)"

subsection \<open>\<^verbatim>\<open>examples/xiaomi_sensors.py\<close>\<close>

definition xiaomi_sensors_globals :: "string list" where
  "xiaomi_sensors_globals =
     [''asyncio'', ''random'', ''Any'', ''Dict'', ''List'', ''BasePlugin'', ''PluginInfo'',
      ''PluginType'', ''DeviceCapability'', ''DeviceInfo'', ''XiaomiSensorsPlugin'']"

definition xiaomi_sensors_info :: plugin_info where
  "xiaomi_sensors_info =
     \<lparr>name = ''xiaomi_sensors'', version = ''1.0.0'',
      description = ''Plugin pour les capteurs Xiaomi Mi Home'',
      author = ''DomoHub Team'', plugin_type = SENSOR,
      supported_devices = [''Mi Temperature Sensor'', ''Mi Door Sensor'', ''Mi Motion Sensor''],
      info_capabilities = [TEMPERATURE, HUMIDITY, MOTION, DOOR_WINDOW],
      dependencies = [''paho-mqtt'', ''bleak''],
      config_schema = [(''gateway_ip'', ''string'', True),
                       (''gateway_token'', ''string'', True)]\<rparr>"

definition XiaomiSensorsPlugin_init :: "pydict option \<Rightarrow> plugin" where
  "XiaomiSensorsPlugin_init cfg =
     (let p = BasePlugin_init xiaomi_sensors_info cfg
      in p\<lparr>attrs := [(''gateway_ip'', dict_get (config p) ''gateway_ip'' (VStr ''192.168.1.50'')),
                     (''gateway_token'', dict_get (config p) ''gateway_token'' (VStr [])),
                     (''_mqtt_client'', VNone)]\<rparr>)"

definition xiaomi_initialize :: "string list \<Rightarrow> bool body" where
  "xiaomi_initialize globals =
     try_except
       (and_then (load_global globals ''asyncio'')
         (\<lambda>_. and_then (attr ''gateway_ip'')
           (\<lambda>gateway_ip. if \<not> truthy gateway_ip then returns False
              else and_then (attr ''gateway_token'')
                (\<lambda>gateway_token. if \<not> truthy gateway_token then returns False
                   else and_then (set_status globals LOADED) (\<lambda>_. returns True)))))
       (\<lambda>e. and_then (set_status globals ERROR) (\<lambda>_. returns False))"

definition xiaomi_start :: "string list \<Rightarrow> bool body" where
  "xiaomi_start globals =
     try_except
       (and_then (load_global globals ''asyncio'')
         (\<lambda>_. and_then create_task
           (\<lambda>_. and_then (set_status globals RUNNING) (\<lambda>_. returns True))))
       (\<lambda>e. and_then (set_status globals ERROR) (\<lambda>_. returns False))"

definition xiaomi_stop :: "string list \<Rightarrow> bool body" where
  "xiaomi_stop globals =
     try_except
       (and_then (set_status globals STOPPED) (\<lambda>_. returns True))
       (\<lambda>e. returns False)"

definition xiaomi_devices :: "pyval \<Rightarrow> device_info list" where
  "xiaomi_devices gateway_ip =
     [\<lparr>dev_id = ''xiaomi_temp_001'', dev_name = ''Capteur Temp'' @ e_acute @ ''rature Salon'',
       manufacturer = Some ''Xiaomi'', model = Some ''Mi Temperature Sensor'',
       firmware_version = Some ''2.1.0'', capabilities = [TEMPERATURE, HUMIDITY],
       dev_properties = [(''gateway_ip'', gateway_ip), (''battery_type'', VStr ''CR2032'')],
       room = Some ''salon''\<rparr>,
      \<lparr>dev_id = ''xiaomi_door_001'', dev_name = ''Capteur Porte Entr'' @ e_acute @ ''e'',
       manufacturer = Some ''Xiaomi'', model = Some ''Mi Door Sensor'',
       firmware_version = Some ''1.5.2'', capabilities = [DOOR_WINDOW],
       dev_properties = [(''gateway_ip'', gateway_ip), (''battery_type'', VStr ''CR2032'')],
       room = Some (''entr'' @ e_acute @ ''e'')\<rparr>,
      \<lparr>dev_id = ''xiaomi_motion_001'', dev_name = ''Capteur Mouvement Couloir'',
       manufacturer = Some ''Xiaomi'', model = Some ''Mi Motion Sensor'',
       firmware_version = Some ''2.0.1'', capabilities = [MOTION],
       dev_properties = [(''gateway_ip'', gateway_ip), (''battery_type'', VStr ''CR2450'')],
       room = Some ''couloir''\<rparr>]"

definition xiaomi_initial_state :: "nat \<Rightarrow> device_info \<Rightarrow> unit body" where
  "xiaomi_initial_state now device =
     (if TEMPERATURE \<in> set (capabilities device) then
        and_then
          (update_device_state now (dev_id device)
             [(''temperature'', VFloat 22.5), (''humidity'', VInt 45), (''battery'', VInt 85)])
          (\<lambda>_. returns ())
      else if DOOR_WINDOW \<in> set (capabilities device) then
        and_then
          (update_device_state now (dev_id device)
             [(''contact'', VBool True), (''battery'', VInt 90)])
          (\<lambda>_. returns ())
      else if MOTION \<in> set (capabilities device) then
        and_then
          (update_device_state now (dev_id device)
             [(''motion'', VBool False), (''last_motion'', VNone), (''battery'', VInt 80)])
          (\<lambda>_. returns ())
      else returns ())"

fun xiaomi_register :: "nat \<Rightarrow> device_info list \<Rightarrow> unit body" where
  "xiaomi_register now [] = returns ()"
| "xiaomi_register now (device # rest) =
     and_then (add_device device)
       (\<lambda>_. and_then (xiaomi_initial_state now device) (\<lambda>_. xiaomi_register now rest))"

definition xiaomi_discover_devices :: "nat \<Rightarrow> device_info list body" where
  "xiaomi_discover_devices now =
     try_except
       (and_then (attr ''gateway_ip'')
         (\<lambda>gateway_ip. and_then (xiaomi_register now (xiaomi_devices gateway_ip))
            (\<lambda>_. returns (xiaomi_devices gateway_ip))))
       (\<lambda>e. returns [])"

definition xiaomi_execute_device_action ::
  "string list \<Rightarrow> nat \<Rightarrow> string \<Rightarrow> string \<Rightarrow> pydict \<Rightarrow> bool body"
where
  "xiaomi_execute_device_action globals now i action parameters =
     try_except
       (if action = ''calibrate'' then
          and_then (load_global globals ''asyncio'')
            (\<lambda>_. and_then (emit_event ''device_calibrated'' (DeviceCalibrated i))
               (\<lambda>_. returns True))
        else if action = ''reset_battery'' then
          and_then (update_device_state now i [(''battery'', VInt 100)]) (\<lambda>_. returns True)
        else returns False)
       (\<lambda>e. returns False)"


section \<open>The plugin manager of \<^verbatim>\<open>plugins/manager.py\<close>\<close>

text \<open>
  A subclass of \<^verbatim>\<open>BasePlugin\<close>: its constructor and the methods it must implement.
  The manager works with any such class; the two built-in ones follow.
\<close>

record plugin_class =
  construct :: "pydict \<Rightarrow> py_exception + plugin"
  initialize :: "bool body"
  start :: "bool body"
  stop :: "bool body"
  discover_devices :: "nat \<Rightarrow> device_info list body"
  execute_device_action :: "nat \<Rightarrow> string \<Rightarrow> string \<Rightarrow> pydict \<Rightarrow> bool body"

definition PhilipsHuePlugin :: plugin_class where
  "PhilipsHuePlugin =
     \<lparr>construct = (\<lambda>cfg. Inr (PhilipsHuePlugin_init (Some cfg))),
      initialize = hue_initialize philips_hue_globals,
      start = hue_start philips_hue_globals,
      stop = hue_stop philips_hue_globals,
      discover_devices = hue_discover_devices,
      execute_device_action = hue_execute_device_action\<rparr>"

definition XiaomiSensorsPlugin :: plugin_class where
  "XiaomiSensorsPlugin =
     \<lparr>construct = (\<lambda>cfg. Inr (XiaomiSensorsPlugin_init (Some cfg))),
      initialize = xiaomi_initialize xiaomi_sensors_globals,
      start = xiaomi_start xiaomi_sensors_globals,
      stop = xiaomi_stop xiaomi_sensors_globals,
      discover_devices = xiaomi_discover_devices,
      execute_device_action = xiaomi_execute_device_action xiaomi_sensors_globals\<rparr>"

text \<open>
  \<^verbatim>\<open>PluginManager\<close>. An entry of \<open>plugins\<close> is an object together with its class;
  \<open>handlers\<close> and \<open>manager_running\<close> are \<^verbatim>\<open>_event_handlers\<close> and \<^verbatim>\<open>_running\<close>;
  \<open>stdout\<close> is not a field: it collects the lines \<^verbatim>\<open>print\<close> wrote.
\<close>

record manager =
  plugin_directories :: "string list"
  plugins :: "(string \<times> plugin_class \<times> plugin) list"
  plugin_classes :: "(string \<times> plugin_class) list"
  handlers :: "handler list"
  manager_running :: bool
  stdout :: "string list"

definition print :: "string \<Rightarrow> manager \<Rightarrow> manager" where
  "print line m = m\<lparr>stdout := stdout m @ [line]\<rparr>"

text \<open>\<^verbatim>\<open>__init__\<close> with \<^verbatim>\<open>_register_builtin_plugins\<close>.\<close>

definition PluginManager_init :: "string list option \<Rightarrow> manager" where
  "PluginManager_init dirs =
     \<lparr>plugin_directories =
        (case dirs of None \<Rightarrow> [''./src/plugins'']
                    | Some ds \<Rightarrow> if ds = [] then [''./src/plugins''] else ds),
      plugins = [],
      plugin_classes = [(''philips_hue'', PhilipsHuePlugin),
                        (''xiaomi_sensors'', XiaomiSensorsPlugin)],
      handlers = [], manager_running = False, stdout = []\<rparr>"

text \<open>\<^verbatim>\<open>d[k]\<close>\<close>

definition subscript :: "(string \<times> 'v) list \<Rightarrow> string \<Rightarrow> py_exception + 'v" where
  "subscript d k = (case map_of d k of None \<Rightarrow> Inl (KeyError k) | Some v \<Rightarrow> Inr v)"

definition load_plugin :: "string \<Rightarrow> pydict option \<Rightarrow> manager \<Rightarrow> bool \<times> manager" where
  "load_plugin plugin_name cfg m =
     (if has_key (plugins m) plugin_name then
        (True, print (''Plugin '' @ plugin_name @ '' already loaded'') m)
      else if \<not> has_key (plugin_classes m) plugin_name then
        (False, print (''Plugin '' @ plugin_name @ '' not found'') m)
      else
        let failed = (\<lambda>e. (False, print (''Failed to load plugin '' @ plugin_name @ '': '' @ str e) m))
        in case subscript (plugin_classes m) plugin_name of
             Inl e \<Rightarrow> failed e
           | Inr plugin_class \<Rightarrow>
               (case construct plugin_class (case cfg of None \<Rightarrow> [] | Some c \<Rightarrow> c) of
                  Inl e \<Rightarrow> failed e
                | Inr plugin \<Rightarrow>
                    (case initialize plugin_class (fold add_event_handler (handlers m) plugin) of
                       (Inl e, plugin') \<Rightarrow> failed e
                     | (Inr True, plugin') \<Rightarrow>
                         (True, print (''Plugin '' @ plugin_name @ '' loaded successfully'')
                                  (m\<lparr>plugins := AList.update plugin_name (plugin_class, plugin')
                                                   (plugins m)\<rparr>))
                     | (Inr False, plugin') \<Rightarrow>
                         (False, print (''Plugin '' @ plugin_name @ '' initialization failed'') m))))"

definition unload_plugin :: "string \<Rightarrow> manager \<Rightarrow> bool \<times> manager" where
  "unload_plugin plugin_name m =
     (if \<not> has_key (plugins m) plugin_name then (False, m)
      else
        let failed = (\<lambda>e m'. (False, print (''Failed to unload plugin '' @ plugin_name @ '': '' @ str e) m'));
            discard = (\<lambda>m'. (True, print (''Plugin '' @ plugin_name @ '' unloaded successfully'')
                                      (m'\<lparr>plugins := AList.delete plugin_name (plugins m')\<rparr>)))
        in case subscript (plugins m) plugin_name of
             Inl e \<Rightarrow> failed e m
           | Inr (c, plugin) \<Rightarrow>
               if status plugin = RUNNING then
                 (case stop c plugin of
                    (Inl e, plugin') \<Rightarrow>
                      failed e (m\<lparr>plugins := AList.update plugin_name (c, plugin') (plugins m)\<rparr>)
                  | (Inr b, plugin') \<Rightarrow>
                      discard (m\<lparr>plugins := AList.update plugin_name (c, plugin') (plugins m)\<rparr>))
               else discard m)"

definition start_plugin :: "string \<Rightarrow> manager \<Rightarrow> bool \<times> manager" where
  "start_plugin plugin_name m =
     (if \<not> has_key (plugins m) plugin_name then (False, m)
      else
        case subscript (plugins m) plugin_name of
          Inl e \<Rightarrow> (False, print (''Failed to start plugin '' @ plugin_name @ '': '' @ str e) m)
        | Inr (c, plugin) \<Rightarrow>
            (case start c plugin of
               (Inl e, plugin') \<Rightarrow>
                 (False, print (''Failed to start plugin '' @ plugin_name @ '': '' @ str e)
                           (m\<lparr>plugins := AList.update plugin_name (c, plugin') (plugins m)\<rparr>))
             | (Inr True, plugin') \<Rightarrow>
                 (True, print (''Plugin '' @ plugin_name @ '' started successfully'')
                          (m\<lparr>plugins := AList.update plugin_name (c, plugin') (plugins m)\<rparr>))
             | (Inr False, plugin') \<Rightarrow>
                 (False, print (''Plugin '' @ plugin_name @ '' failed to start'')
                           (m\<lparr>plugins := AList.update plugin_name (c, plugin') (plugins m)\<rparr>))))"

definition stop_plugin :: "string \<Rightarrow> manager \<Rightarrow> bool \<times> manager" where
  "stop_plugin plugin_name m =
     (if \<not> has_key (plugins m) plugin_name then (False, m)
      else
        case subscript (plugins m) plugin_name of
          Inl e \<Rightarrow> (False, print (''Failed to stop plugin '' @ plugin_name @ '': '' @ str e) m)
        | Inr (c, plugin) \<Rightarrow>
            (case stop c plugin of
               (Inl e, plugin') \<Rightarrow>
                 (False, print (''Failed to stop plugin '' @ plugin_name @ '': '' @ str e)
                           (m\<lparr>plugins := AList.update plugin_name (c, plugin') (plugins m)\<rparr>))
             | (Inr True, plugin') \<Rightarrow>
                 (True, print (''Plugin '' @ plugin_name @ '' stopped successfully'')
                          (m\<lparr>plugins := AList.update plugin_name (c, plugin') (plugins m)\<rparr>))
             | (Inr False, plugin') \<Rightarrow>
                 (False, print (''Plugin '' @ plugin_name @ '' failed to stop'')
                           (m\<lparr>plugins := AList.update plugin_name (c, plugin') (plugins m)\<rparr>))))"

text \<open>
  The loop of \<^verbatim>\<open>discover_all_devices\<close> over \<^verbatim>\<open>self.plugins.items()\<close>: it returns the
  entries with the objects as discovery left them, the dictionary \<^verbatim>\<open>all_devices\<close> and
  the lines printed.
\<close>

fun discover_each ::
  "nat \<Rightarrow> (string \<times> plugin_class \<times> plugin) list \<Rightarrow> (string \<times> device_info list) list
     \<Rightarrow> string list
     \<Rightarrow> (string \<times> plugin_class \<times> plugin) list \<times> (string \<times> device_info list) list \<times> string list"
where
  "discover_each now [] all_devices out = ([], all_devices, out)"
| "discover_each now ((plugin_name, c, plugin) # rest) all_devices out =
     (case discover_devices c now plugin of
        (Inr found, plugin') \<Rightarrow>
          (case discover_each now rest (AList.update plugin_name found all_devices) out of
             (rest', r) \<Rightarrow> ((plugin_name, c, plugin') # rest', r))
      | (Inl e, plugin') \<Rightarrow>
          (case discover_each now rest (AList.update plugin_name [] all_devices)
                  (out @ [''Failed to discover devices for plugin '' @ plugin_name @ '': '' @ str e]) of
             (rest', r) \<Rightarrow> ((plugin_name, c, plugin') # rest', r)))"

definition discover_all_devices ::
  "nat \<Rightarrow> manager \<Rightarrow> (string \<times> device_info list) list \<times> manager"
where
  "discover_all_devices now m =
     (case discover_each now (plugins m) [] (stdout m) of
        (plugins', all_devices, out) \<Rightarrow> (all_devices, m\<lparr>plugins := plugins', stdout := out\<rparr>))"

definition manager_add_event_handler :: "handler \<Rightarrow> manager \<Rightarrow> manager" where
  "manager_add_event_handler h m =
     m\<lparr>handlers := handlers m @ [h],
       plugins := map (\<lambda>(n, c, plugin). (n, c, add_event_handler h plugin)) (plugins m)\<rparr>"

definition manager_remove_event_handler :: "nat \<Rightarrow> manager \<Rightarrow> manager" where
  "manager_remove_event_handler i m =
     m\<lparr>handlers := (if i \<in> hid ` set (handlers m) then remove_first i (handlers m)
                     else handlers m),
       plugins := map (\<lambda>(n, c, plugin). (n, c, remove_event_handler i plugin)) (plugins m)\<rparr>"


section \<open>Facts about the registry operations\<close>

lemma emit_event_no_handlers:
  "event_handlers p = [] \<Longrightarrow> emit_event t d p = (Inr (), p)"
  by (simp add: emit_event_def emit_loop_unfold)

lemma and_then_modify [simp]: "and_then (modify f) g p = g () (f p)"
  by (simp add: and_then_def modify_def)

lemma and_then_returns [simp]: "and_then (returns a) g p = g a p"
  by (simp add: and_then_def returns_def)

lemma and_then_raises [simp]: "and_then (raises e) g p = (Inl e, p)"
  by (simp add: and_then_def raises_def)

lemma and_then_emit_event [simp]:
  "and_then (emit_event t d) g p = g () (snd (emit_event t d p))"
  by (subst and_then_def, subst emit_event_eq) simp

lemma try_except_Inr: "f p = (Inr a, q) \<Longrightarrow> try_except f h p = (Inr a, q)"
  by (simp add: try_except_def)

lemma try_except_Inl: "f p = (Inl e, q) \<Longrightarrow> try_except f h p = h e q"
  by (simp add: try_except_def)

lemma add_device_eq:
  "add_device d p =
     (Inr True, snd (emit_event ''device_added'' (DeviceAdded d)
                       (p\<lparr>devices := AList.update (dev_id d) d (devices p)\<rparr>)))"
  unfolding add_device_def by (rule try_except_Inr) (simp add: returns_def)

lemma update_device_state_unknown:
  "\<not> has_key (devices p) i \<Longrightarrow> update_device_state now i props p = (Inr False, p)"
  unfolding update_device_state_def by (rule try_except_Inr) (simp add: returns_def)

lemma update_device_state_known:
  "has_key (devices p) i \<Longrightarrow>
   update_device_state now i props p =
     (Inr True,
      snd (emit_event ''state_changed''
             (StateChanged \<lparr>device_id = i, properties = props, last_updated = now, online = True\<rparr>)
             (p\<lparr>device_states :=
                  AList.update i \<lparr>device_id = i, properties = props, last_updated = now,
                                  online = True\<rparr> (device_states p)\<rparr>)))"
  unfolding update_device_state_def by (rule try_except_Inr) (simp add: returns_def Let_def)

lemma remove_device_unknown:
  "\<not> has_key (devices p) i \<Longrightarrow> remove_device i p = (Inr False, p)"
  unfolding remove_device_def by (rule try_except_Inr) (simp add: returns_def)

lemma remove_device_known:
  "has_key (devices p) i \<Longrightarrow>
   remove_device i p =
     (Inr True,
      snd (emit_event ''device_removed'' (DeviceRemoved i)
             (p\<lparr>devices := AList.delete i (devices p),
                device_states := AList.delete i (device_states p)\<rparr>)))"
  unfolding remove_device_def by (rule try_except_Inr) (simp add: returns_def has_key_def)

lemmas emit_event_fields = bus_only_fields [OF bus_only_emit_event]


lemma invoke_quiet:
  "hcalls h = [] \<Longrightarrow> snd (invoke h ev p) = p\<lparr>calls := calls p @ [(hid h, ev)]\<rparr>"
  by (simp add: invoke_def Let_def split: option.splits)

lemma emit_loop_quiet:
  assumes "\<forall>h \<in> set (event_handlers p). hcalls h = []"
  shows "snd (emit_loop ev i p) =
           p\<lparr>calls := calls p @ map (\<lambda>h. (hid h, ev)) (drop i (event_handlers p))\<rparr>"
  using assms
proof (induction ev i p rule: emit_loop.induct)
  case (1 ev i p)
  show ?case
  proof (cases "i < length (event_handlers p)")
    case True
    let ?h = "event_handlers p ! i"
    let ?p1 = "p\<lparr>calls := calls p @ [(hid ?h, ev)]\<rparr>"
    from True "1.prems" have q: "hcalls ?h = []" by simp
    then have s: "snd (invoke ?h ev p) = ?p1" by (rule invoke_quiet)
    from "1.prems" have "\<forall>h \<in> set (event_handlers ?p1). hcalls h = []" by simp
    with "1.IH" [OF True try_invoke [symmetric] refl] s
    have "snd (emit_loop ev (Suc i) ?p1) =
            ?p1\<lparr>calls := calls ?p1 @ map (\<lambda>h. (hid h, ev)) (drop (Suc i) (event_handlers ?p1))\<rparr>"
      by simp
    moreover have "drop i (event_handlers p) = ?h # drop (Suc i) (event_handlers p)"
      using True by (simp add: Cons_nth_drop_Suc)
    ultimately show ?thesis
      using True s by (subst emit_loop_unfold) simp
  next
    case False
    then show ?thesis by (subst emit_loop_unfold) simp
  qed
qed

section \<open>Runs of an instance\<close>

text \<open>
  What can happen to an instance of a built-in class between its construction and any
  later moment: calls of the registry interface and of the class's own methods, and time
  passing. The clock is read by \<^verbatim>\<open>update_device_state\<close>; it does not go backwards.
\<close>

datatype builtin = Hue | Xiaomi

fun class_of :: "builtin \<Rightarrow> plugin_class" where
  "class_of Hue = PhilipsHuePlugin"
| "class_of Xiaomi = XiaomiSensorsPlugin"

fun discovered_ids :: "builtin \<Rightarrow> string list" where
  "discovered_ids Hue = [''hue_light_001'', ''hue_light_002'']"
| "discovered_ids Xiaomi = [''xiaomi_temp_001'', ''xiaomi_door_001'', ''xiaomi_motion_001'']"

datatype operation =
  AddDevice device_info
  | RemoveDevice string
  | UpdateState string pydict
  | Subscribe handler
  | Unsubscribe nat
  | Initialize
  | Start
  | Stop
  | Discover
  | Execute string string "pydict option"
  | Wait nat

fun step :: "builtin \<Rightarrow> operation \<Rightarrow> nat \<times> plugin \<Rightarrow> nat \<times> plugin" where
  "step b (AddDevice d) (t, p) = (t, snd (add_device d p))"
| "step b (RemoveDevice i) (t, p) = (t, snd (remove_device i p))"
| "step b (UpdateState i props) (t, p) = (t, snd (update_device_state t i props p))"
| "step b (Subscribe h) (t, p) = (t, add_event_handler h p)"
| "step b (Unsubscribe i) (t, p) = (t, remove_event_handler i p)"
| "step b Initialize (t, p) = (t, snd (initialize (class_of b) p))"
| "step b Start (t, p) = (t, snd (start (class_of b) p))"
| "step b Stop (t, p) = (t, snd (stop (class_of b) p))"
| "step b Discover (t, p) = (t, snd (discover_devices (class_of b) t p))"
| "step b (Execute i action parameters) (t, p) =
     (t, snd (execute_action (execute_device_action (class_of b) t) i action parameters p))"
| "step b (Wait dt) (t, p) = (t + dt, p)"

definition run :: "builtin \<Rightarrow> operation list \<Rightarrow> nat \<times> plugin \<Rightarrow> nat \<times> plugin" where
  "run b ops s = fold (step b) ops s"

definition registry_ok :: "nat \<Rightarrow> plugin \<Rightarrow> bool" where
  "registry_ok t p =
     (distinct (map fst (devices p)) \<and> distinct (map fst (device_states p))
      \<and> list_all (\<lambda>(k, s). has_key (devices p) k \<and> device_id s = k \<and> online s
                            \<and> last_updated s \<le> t) (device_states p))"

definition preserves :: "(plugin \<Rightarrow> bool) \<Rightarrow> 'r body \<Rightarrow> bool" where
  "preserves P f = (\<forall>p. P p \<longrightarrow> P (snd (f p)))"

lemma preservesI: "(\<And>p. P p \<Longrightarrow> P (snd (f p))) \<Longrightarrow> preserves P f"
  by (simp add: preserves_def)

lemma preservesD: "preserves P f \<Longrightarrow> P p \<Longrightarrow> P (snd (f p))"
  by (simp add: preserves_def)

lemma preserves_returns [intro!]: "preserves P (returns a)"
  by (simp add: preserves_def returns_def)

lemma preserves_raises [intro!]: "preserves P (raises e)"
  by (simp add: preserves_def raises_def)

lemma preserves_and_then [intro!]:
  "preserves P f \<Longrightarrow> (\<And>a. preserves P (g a)) \<Longrightarrow> preserves P (and_then f g)"
  by (auto simp: preserves_def and_then_def split: prod.splits sum.splits)

lemma preserves_try_except [intro!]:
  "preserves P f \<Longrightarrow> (\<And>e. preserves P (h e)) \<Longrightarrow> preserves P (try_except f h)"
  by (auto simp: preserves_def try_except_def split: prod.splits sum.splits)

lemma preserves_if [intro!]:
  "(c \<Longrightarrow> preserves P f) \<Longrightarrow> (\<not> c \<Longrightarrow> preserves P g) \<Longrightarrow> preserves P (if c then f else g)"
  by simp

lemma preserves_load_global [intro!]: "preserves P (load_global g n)"
  by (auto simp: load_global_def)

lemma preserves_attr [intro!]: "preserves P (attr a)"
  by (simp add: preserves_def attr_def returns_def raises_def split: option.splits)

lemma preserves_create_task [intro!]: "preserves P create_task"
  by (auto simp: create_task_def)

lemma preserves_case_sum [intro!]:
  "(\<And>e. x = Inl e \<Longrightarrow> preserves P (f e)) \<Longrightarrow> (\<And>a. x = Inr a \<Longrightarrow> preserves P (g a))
   \<Longrightarrow> preserves P (case x of Inl e \<Rightarrow> f e | Inr a \<Rightarrow> g a)"
  by (cases x) simp_all

text \<open>
  A property of the registry that the registry operations maintain, where \<open>may_update\<close>
  says for which device ids \<^verbatim>\<open>update_device_state\<close> is called at clock reading \<open>t\<close>.
\<close>

definition registry_property :: "(string \<Rightarrow> bool) \<Rightarrow> nat \<Rightarrow> (plugin \<Rightarrow> bool) \<Rightarrow> bool" where
  "registry_property may_update t P =
     ((\<forall>p q. devices q = devices p \<and> device_states q = device_states p \<longrightarrow> P q = P p)
      \<and> (\<forall>d p. P p \<longrightarrow> P (p\<lparr>devices := AList.update (dev_id d) d (devices p)\<rparr>))
      \<and> (\<forall>i p. P p \<longrightarrow> P (p\<lparr>devices := AList.delete i (devices p),
                                device_states := AList.delete i (device_states p)\<rparr>))
      \<and> (\<forall>i props p. may_update i \<longrightarrow> has_key (devices p) i \<longrightarrow> P p \<longrightarrow>
            P (p\<lparr>device_states :=
                   AList.update i \<lparr>device_id = i, properties = props, last_updated = t,
                                   online = True\<rparr> (device_states p)\<rparr>)))"

lemma property_frame:
  "registry_property U t P \<Longrightarrow> devices q = devices p \<Longrightarrow> device_states q = device_states p
   \<Longrightarrow> P p \<Longrightarrow> P q"
  unfolding registry_property_def by blast

lemma property_bus_only: "registry_property U t P \<Longrightarrow> bus_only p q \<Longrightarrow> P p \<Longrightarrow> P q"
  by (rule property_frame) (simp_all add: bus_only_fields)

lemma preserves_emit_event:
  "registry_property U t P \<Longrightarrow> preserves P (emit_event ty d)"
  by (rule preservesI) (erule property_bus_only [OF _ bus_only_emit_event])

lemma preserves_set_status: "registry_property U t P \<Longrightarrow> preserves P (set_status g s)"
  unfolding set_status_def
  by (rule preserves_and_then, rule preserves_load_global, rule preservesI)
    (auto simp: modify_def elim: property_frame)

lemma preserves_add_device: "registry_property U t P \<Longrightarrow> preserves P (add_device d)"
proof (rule preservesI)
  fix p assume r: "registry_property U t P" and "P p"
  then have "P (p\<lparr>devices := AList.update (dev_id d) d (devices p)\<rparr>)"
    unfolding registry_property_def by blast
  from property_bus_only [OF r bus_only_emit_event this]
  show "P (snd (add_device d p))" by (simp add: add_device_eq)
qed

lemma preserves_remove_device: "registry_property U t P \<Longrightarrow> preserves P (remove_device i)"
proof (rule preservesI)
  fix p assume r: "registry_property U t P" and p: "P p"
  show "P (snd (remove_device i p))"
  proof (cases "has_key (devices p) i")
    case True
    from r p have "P (p\<lparr>devices := AList.delete i (devices p),
                        device_states := AList.delete i (device_states p)\<rparr>)"
      unfolding registry_property_def by blast
    from property_bus_only [OF r bus_only_emit_event this] True
    show ?thesis by (simp add: remove_device_known)
  next
    case False
    with p show ?thesis by (simp add: remove_device_unknown)
  qed
qed

lemma preserves_update_device_state:
  "registry_property U t P \<Longrightarrow> U i \<Longrightarrow> preserves P (update_device_state t i props)"
proof (rule preservesI)
  fix p assume r: "registry_property U t P" and u: "U i" and p: "P p"
  show "P (snd (update_device_state t i props p))"
  proof (cases "has_key (devices p) i")
    case True
    with r u p have "P (p\<lparr>device_states :=
                   AList.update i \<lparr>device_id = i, properties = props, last_updated = t,
                                   online = True\<rparr> (device_states p)\<rparr>)"
      unfolding registry_property_def by blast
    from property_bus_only [OF r bus_only_emit_event this] True
    show ?thesis by (simp add: update_device_state_known)
  next
    case False
    with p show ?thesis by (simp add: update_device_state_unknown)
  qed
qed

lemma preserves_execute_action:
  assumes "registry_property U t P" and "\<And>ps. preserves P (impl i action ps)"
  shows "preserves P (execute_action impl i action parameters)"
proof (rule preservesI)
  fix p assume p: "P p"
  let ?ps = "case parameters of None \<Rightarrow> [] | Some d \<Rightarrow> d"
  have "preserves P
          (try_except
             (and_then (impl i action ?ps)
                (\<lambda>result. and_then
                   (emit_event ''action_executed'' (ActionExecuted i action ?ps result))
                   (\<lambda>_. returns result)))
             (\<lambda>e. and_then (emit_event ''error'' (ErrorData (str e))) (\<lambda>_. returns False)))"
    by (intro preserves_try_except preserves_and_then preserves_returns assms(2)
        preserves_emit_event [OF assms(1)])
  from preservesD [OF this p] p
  show "P (snd (execute_action impl i action parameters p))"
    by (simp add: execute_action_def returns_def Let_def)
qed

lemma preserves_hue_initialize:
  "registry_property U t P \<Longrightarrow> preserves P (hue_initialize g)"
  unfolding hue_initialize_def
  by (intro preserves_try_except preserves_and_then preserves_if preserves_returns
      preserves_load_global preserves_attr preserves_set_status)

lemma preserves_hue_start: "registry_property U t P \<Longrightarrow> preserves P (hue_start g)"
  unfolding hue_start_def
  by (intro preserves_try_except preserves_and_then preserves_returns
      preserves_load_global preserves_create_task preserves_set_status)

lemma preserves_hue_stop: "registry_property U t P \<Longrightarrow> preserves P (hue_stop g)"
  unfolding hue_stop_def
  by (intro preserves_try_except preserves_and_then preserves_returns preserves_set_status)

lemma preserves_hue_register:
  "registry_property U t P \<Longrightarrow> \<forall>d \<in> set ds. U (dev_id d) \<Longrightarrow> preserves P (hue_register t ds)"
proof (induction ds)
  case Nil
  show ?case by (simp add: preserves_returns)
next
  case (Cons d ds)
  then show ?case
    by (auto intro!: preserves_and_then preserves_add_device preserves_update_device_state)
qed

lemma preserves_hue_discover_devices:
  "registry_property U t P \<Longrightarrow> \<forall>i \<in> set (discovered_ids Hue). U i
   \<Longrightarrow> preserves P (hue_discover_devices t)"
  unfolding hue_discover_devices_def
  by (intro preserves_try_except preserves_and_then preserves_returns preserves_attr
      preserves_hue_register) (simp_all add: hue_devices_def)

lemma preserves_hue_execute_device_action:
  "registry_property U t P \<Longrightarrow> U i \<Longrightarrow> preserves P (hue_execute_device_action t i action ps)"
  unfolding hue_execute_device_action_def
  by (intro preserves_try_except preserves_and_then preserves_if preserves_returns
      preserves_raises preserves_case_sum preserves_update_device_state)

lemma preserves_xiaomi_initialize:
  "registry_property U t P \<Longrightarrow> preserves P (xiaomi_initialize g)"
  unfolding xiaomi_initialize_def
  by (intro preserves_try_except preserves_and_then preserves_if preserves_returns
      preserves_load_global preserves_attr preserves_set_status)

lemma preserves_xiaomi_start: "registry_property U t P \<Longrightarrow> preserves P (xiaomi_start g)"
  unfolding xiaomi_start_def
  by (intro preserves_try_except preserves_and_then preserves_returns
      preserves_load_global preserves_create_task preserves_set_status)

lemma preserves_xiaomi_stop: "registry_property U t P \<Longrightarrow> preserves P (xiaomi_stop g)"
  unfolding xiaomi_stop_def
  by (intro preserves_try_except preserves_and_then preserves_returns preserves_set_status)

lemma preserves_xiaomi_initial_state:
  "registry_property U t P \<Longrightarrow> U (dev_id d) \<Longrightarrow> preserves P (xiaomi_initial_state t d)"
  unfolding xiaomi_initial_state_def
  by (intro preserves_and_then preserves_if preserves_returns preserves_update_device_state)

lemma preserves_xiaomi_register:
  "registry_property U t P \<Longrightarrow> \<forall>d \<in> set ds. U (dev_id d)
   \<Longrightarrow> preserves P (xiaomi_register t ds)"
proof (induction ds)
  case Nil
  show ?case by (simp add: preserves_returns)
next
  case (Cons d ds)
  then show ?case
    by (auto intro!: preserves_and_then preserves_add_device preserves_xiaomi_initial_state)
qed

lemma preserves_xiaomi_discover_devices:
  "registry_property U t P \<Longrightarrow> \<forall>i \<in> set (discovered_ids Xiaomi). U i
   \<Longrightarrow> preserves P (xiaomi_discover_devices t)"
  unfolding xiaomi_discover_devices_def
  by (intro preserves_try_except preserves_and_then preserves_returns preserves_attr
      preserves_xiaomi_register) (simp_all add: xiaomi_devices_def)

lemma preserves_xiaomi_execute_device_action:
  "registry_property U t P \<Longrightarrow> U i
   \<Longrightarrow> preserves P (xiaomi_execute_device_action g t i action ps)"
  unfolding xiaomi_execute_device_action_def
  by (intro preserves_try_except preserves_and_then preserves_if preserves_returns
      preserves_load_global preserves_emit_event preserves_update_device_state)

text \<open>The device ids on which an operation may call \<^verbatim>\<open>update_device_state\<close>.\<close>

fun updated_ids :: "builtin \<Rightarrow> operation \<Rightarrow> string list" where
  "updated_ids b (UpdateState i props) = [i]"
| "updated_ids b (Execute i action parameters) = [i]"
| "updated_ids b Discover = discovered_ids b"
| "updated_ids b _ = []"

lemma step_clock: "fst (step b op (t, p)) = (case op of Wait dt \<Rightarrow> t + dt | _ \<Rightarrow> t)"
  by (cases op) simp_all

lemma step_preserves:
  assumes r: "registry_property U t P"
    and u: "\<forall>i \<in> set (updated_ids b op). U i"
    and p: "P p"
  shows "P (snd (step b op (t, p)))"
proof (cases op)
  case (AddDevice d)
  with preservesD [OF preserves_add_device [OF r] p] show ?thesis by simp
next
  case (RemoveDevice i)
  with preservesD [OF preserves_remove_device [OF r] p] show ?thesis by simp
next
  case (UpdateState i props)
  with u have "U i" by simp
  from preservesD [OF preserves_update_device_state [OF r this] p] UpdateState
  show ?thesis by simp
next
  case (Subscribe h)
  with property_frame [OF r _ _ p, of "add_event_handler h p"] show ?thesis
    by (simp add: add_event_handler_def)
next
  case (Unsubscribe i)
  with property_frame [OF r _ _ p, of "remove_event_handler i p"] show ?thesis
    by (simp add: remove_event_handler_def)
next
  case Initialize
  with preservesD [OF preserves_hue_initialize [OF r] p]
    preservesD [OF preserves_xiaomi_initialize [OF r] p]
  show ?thesis by (cases b) (simp_all add: PhilipsHuePlugin_def XiaomiSensorsPlugin_def)
next
  case Start
  with preservesD [OF preserves_hue_start [OF r] p]
    preservesD [OF preserves_xiaomi_start [OF r] p]
  show ?thesis by (cases b) (simp_all add: PhilipsHuePlugin_def XiaomiSensorsPlugin_def)
next
  case Stop
  with preservesD [OF preserves_hue_stop [OF r] p]
    preservesD [OF preserves_xiaomi_stop [OF r] p]
  show ?thesis by (cases b) (simp_all add: PhilipsHuePlugin_def XiaomiSensorsPlugin_def)
next
  case Discover
  show ?thesis
  proof (cases b)
    case Hue
    with u Discover have "\<forall>i \<in> set (discovered_ids Hue). U i" by simp
    from preservesD [OF preserves_hue_discover_devices [OF r this] p] Hue Discover
    show ?thesis by (simp add: PhilipsHuePlugin_def)
  next
    case Xiaomi
    with u Discover have "\<forall>i \<in> set (discovered_ids Xiaomi). U i" by simp
    from preservesD [OF preserves_xiaomi_discover_devices [OF r this] p] Xiaomi Discover
    show ?thesis by (simp add: XiaomiSensorsPlugin_def)
  qed
next
  case (Execute i action parameters)
  with u have i: "U i" by simp
  show ?thesis
  proof (cases b)
    case Hue
    have "preserves P (execute_action (hue_execute_device_action t) i action parameters)"
      by (rule preserves_execute_action [where impl = "hue_execute_device_action t", OF r])
        (rule preserves_hue_execute_device_action [OF r i])
    from preservesD [OF this p] Hue Execute
    show ?thesis by (simp add: PhilipsHuePlugin_def)
  next
    case Xiaomi
    have "preserves P (execute_action (xiaomi_execute_device_action xiaomi_sensors_globals t) i action parameters)"
      by (rule preserves_execute_action [where impl = "xiaomi_execute_device_action xiaomi_sensors_globals t", OF r])
        (rule preserves_xiaomi_execute_device_action [OF r i])
    from preservesD [OF this p] Xiaomi Execute
    show ?thesis by (simp add: XiaomiSensorsPlugin_def)
  qed
next
  case (Wait dt)
  with p show ?thesis by simp
qed


subsection \<open>Two properties that every run maintains\<close>

lemma set_update_subset: "set (AList.update k v al) \<subseteq> insert (k, v) (set al)"
  by (induction al) auto

lemma set_delete_eq: "set (AList.delete k al) = {x \<in> set al. fst x \<noteq> k}"
  by (auto simp: AList.delete_eq)

lemma has_key_update: "has_key (AList.update k v al) j = (j = k \<or> has_key al j)"
  by (auto simp: has_key_def dom_update)

lemma has_key_delete: "has_key (AList.delete k al) j = (j \<noteq> k \<and> has_key al j)"
  by (force simp: has_key_def set_delete_eq)

lemma registry_ok_property: "registry_property (\<lambda>_. True) t (registry_ok t)"
  unfolding registry_property_def
proof (intro conjI allI impI)
  fix p q :: plugin
  assume "devices q = devices p \<and> device_states q = device_states p"
  then show "registry_ok t q = registry_ok t p" by (simp add: registry_ok_def)
next
  fix d and p :: plugin
  assume "registry_ok t p"
  then show "registry_ok t (p\<lparr>devices := AList.update (dev_id d) d (devices p)\<rparr>)"
    by (auto simp: registry_ok_def distinct_update has_key_update list_all_iff)
next
  fix i and p :: plugin
  assume "registry_ok t p"
  then show "registry_ok t (p\<lparr>devices := AList.delete i (devices p),
                               device_states := AList.delete i (device_states p)\<rparr>)"
    by (auto simp: registry_ok_def distinct_delete has_key_delete list_all_iff set_delete_eq)
next
  fix i props and p :: plugin
  assume k: "has_key (devices p) i" and ok: "registry_ok t p"
  let ?st = "\<lparr>device_id = i, properties = props, last_updated = t, online = True\<rparr>"
  from set_update_subset [of i ?st "device_states p"] k ok
  show "registry_ok t (p\<lparr>device_states := AList.update i ?st (device_states p)\<rparr>)"
    by (auto simp: registry_ok_def distinct_update list_all_iff)
qed

lemma absent_property:
  "registry_property (\<lambda>j. j \<noteq> i) t (\<lambda>p. get_device_state i p = None)"
  unfolding registry_property_def
  by (auto simp: get_device_state_def update_conv' delete_conv')

lemma registry_ok_mono: "registry_ok t p \<Longrightarrow> t \<le> t' \<Longrightarrow> registry_ok t' p"
  by (auto simp: registry_ok_def list_all_iff)

lemma registry_ok_step:
  assumes "registry_ok t p"
  shows "registry_ok (fst (step b op (t, p))) (snd (step b op (t, p)))"
proof (cases op)
  case (Wait dt)
  with registry_ok_mono [OF assms, of "t + dt"] show ?thesis by simp
qed (use step_preserves [OF registry_ok_property _ assms, of b op] in \<open>simp_all\<close>)

lemma registry_ok_run:
  "registry_ok t p \<Longrightarrow> registry_ok (fst (run b ops (t, p))) (snd (run b ops (t, p)))"
proof (induction ops arbitrary: t p)
  case Nil
  then show ?case by (simp add: run_def)
next
  case (Cons op ops)
  from Cons.IH [OF registry_ok_step [OF Cons.prems, of b op]]
  show ?case by (simp add: run_def)
qed

lemma absent_run:
  "get_device_state i p = None \<Longrightarrow> \<forall>op \<in> set ops. i \<notin> set (updated_ids b op)
   \<Longrightarrow> get_device_state i (snd (run b ops (t, p))) = None"
proof (induction ops arbitrary: t p)
  case Nil
  then show ?case by (simp add: run_def)
next
  case (Cons op ops)
  from Cons.prems have "\<forall>j \<in> set (updated_ids b op). j \<noteq> i" by auto
  from step_preserves [OF absent_property this Cons.prems(1), of t]
  have "get_device_state i (snd (step b op (t, p))) = None" .
  from Cons.IH [OF this, of "fst (step b op (t, p))"] Cons.prems(2)
  show ?case by (simp add: run_def)
qed

lemma constructed_ok: "construct (class_of b) cfg = Inr p0 \<Longrightarrow> registry_ok t0 p0"
  by (cases b)
    (auto simp: PhilipsHuePlugin_def XiaomiSensorsPlugin_def PhilipsHuePlugin_init_def
      XiaomiSensorsPlugin_init_def BasePlugin_init_def registry_ok_def Let_def)

lemma reached_ok:
  assumes "construct (class_of b) cfg = Inr p0" and "run b ops (t0, p0) = (t, p)"
  shows "registry_ok t p"
  using registry_ok_run [OF constructed_ok [OF assms(1), of t0], of b ops] assms(2) by simp

lemma registry_ok_state:
  "registry_ok t p \<Longrightarrow> get_device_state i p = Some s
   \<Longrightarrow> has_key (devices p) i \<and> online s \<and> last_updated s \<le> t"
  by (auto simp: registry_ok_def get_device_state_def list_all_iff dest!: map_of_SomeD)

lemma unregistered_absent:
  "registry_ok t p \<Longrightarrow> \<not> has_key (devices p) i \<Longrightarrow> get_device_state i p = None"
  using registry_ok_state [of t p i] by (cases "get_device_state i p") auto


section \<open>Facts about the example integrations\<close>

text \<open>
  \<^verbatim>\<open>PluginStatus\<close> is not among the names either example module binds, so every
  statement \<^verbatim>\<open>self.status = PluginStatus.X\<close> raises \<^verbatim>\<open>NameError\<close>, in the body of
  a method and again in its handler. The lemmas say what the methods do without the name,
  and what \<^verbatim>\<open>start\<close> would do with it.
\<close>

lemma set_status_unbound:
  "''PluginStatus'' \<notin> set g \<Longrightarrow> set_status g s p = (Inl (NameError ''PluginStatus''), p)"
  by (simp add: set_status_def load_global_def)

lemma set_status_bound:
  "''PluginStatus'' \<in> set g \<Longrightarrow> set_status g s p = (Inr (), p\<lparr>status := s\<rparr>)"
  by (simp add: set_status_def load_global_def modify_def)

lemma hue_start_unbound:
  "''PluginStatus'' \<notin> set g \<Longrightarrow> hue_start g p = (Inl (NameError ''PluginStatus''), p)"
  by (simp add: hue_start_def try_except_def load_global_def create_task_def
      set_status_unbound and_then_def raises_def returns_def)

lemma xiaomi_start_unbound:
  "''PluginStatus'' \<notin> set g \<Longrightarrow> xiaomi_start g p = (Inl (NameError ''PluginStatus''), p)"
  by (simp add: xiaomi_start_def try_except_def load_global_def create_task_def
      set_status_unbound and_then_def raises_def returns_def)

lemma hue_start_bound:
  "''PluginStatus'' \<in> set g \<Longrightarrow> ''asyncio'' \<in> set g
   \<Longrightarrow> hue_start g p = (Inr True, p\<lparr>status := RUNNING\<rparr>)"
  by (simp add: hue_start_def try_except_def load_global_def create_task_def
      set_status_bound and_then_def returns_def)

lemma xiaomi_start_bound:
  "''PluginStatus'' \<in> set g \<Longrightarrow> ''asyncio'' \<in> set g
   \<Longrightarrow> xiaomi_start g p = (Inr True, p\<lparr>status := RUNNING\<rparr>)"
  by (simp add: xiaomi_start_def try_except_def load_global_def create_task_def
      set_status_bound and_then_def returns_def)

lemma hue_stop_unbound:
  "''PluginStatus'' \<notin> set g \<Longrightarrow> hue_stop g p = (Inr False, p)"
  by (simp add: hue_stop_def try_except_def set_status_unbound and_then_def returns_def)

lemma hue_initialize_unbound:
  assumes "''PluginStatus'' \<notin> set g" and "''asyncio'' \<in> set g"
    and "map_of (attrs p) ''bridge_ip'' = Some ip" and "truthy ip"
    and "map_of (attrs p) ''username'' = Some u" and "truthy u"
  shows "hue_initialize g p = (Inl (NameError ''PluginStatus''), p)"
  using assms
  by (simp add: hue_initialize_def try_except_def load_global_def attr_def
      set_status_unbound and_then_def returns_def)

lemma initialize_raises_with_credentials:
  "initialize PhilipsHuePlugin
     (PhilipsHuePlugin_init (Some [(''bridge_ip'', VStr ''10.0.0.5''), (''username'', VStr ''u'')]))
   = (Inl (NameError ''PluginStatus''),
      PhilipsHuePlugin_init (Some [(''bridge_ip'', VStr ''10.0.0.5''), (''username'', VStr ''u'')]))"
  unfolding PhilipsHuePlugin_def
  by (simp, rule hue_initialize_unbound [where ip = "VStr ''10.0.0.5''" and u = "VStr ''u''"])
    (simp_all add: philips_hue_globals_def PhilipsHuePlugin_init_def BasePlugin_init_def
      Let_def dict_get_def)


lemma try_except_returns:
  "\<exists>r. fst (try_except f (\<lambda>e. returns a) p) = Inr r"
  by (cases "f p") (auto simp: try_except_def returns_def split: sum.splits)

lemma execute_action_unknown:
  "\<not> has_key (devices p) i \<Longrightarrow> execute_action impl i action parameters p = (Inr False, p)"
  by (simp add: execute_action_def returns_def)

lemma execute_action_caught:
  assumes "has_key (devices p) i"
    and "impl i action (case parameters of None \<Rightarrow> [] | Some ps \<Rightarrow> ps) p = (Inl e, q)"
  shows "execute_action impl i action parameters p
       = (Inr False, snd (emit_event ''error'' (ErrorData (str e)) q))"
proof -
  let ?ps = "case parameters of None \<Rightarrow> [] | Some ps \<Rightarrow> ps"
  let ?body = "and_then (impl i action ?ps)
                 (\<lambda>result. and_then
                    (emit_event ''action_executed'' (ActionExecuted i action ?ps result))
                    (\<lambda>_. returns result))"
  from assms(2) have "?body p = (Inl e, q)" by (simp add: and_then_def)
  then have "try_except ?body
                (\<lambda>e. and_then (emit_event ''error'' (ErrorData (str e))) (\<lambda>_. returns False)) p
              = (Inr False, snd (emit_event ''error'' (ErrorData (str e)) q))"
    by (simp add: try_except_def returns_def)
  with assms(1) show ?thesis
    by (simp add: execute_action_def Let_def)
qed

lemma execute_action_returned:
  assumes "has_key (devices p) i"
    and "impl i action (case parameters of None \<Rightarrow> [] | Some ps \<Rightarrow> ps) p = (Inr r, q)"
  shows "execute_action impl i action parameters p
       = (Inr r, snd (emit_event ''action_executed''
                        (ActionExecuted i action
                           (case parameters of None \<Rightarrow> [] | Some ps \<Rightarrow> ps) r) q))"
proof -
  let ?ps = "case parameters of None \<Rightarrow> [] | Some ps \<Rightarrow> ps"
  let ?body = "and_then (impl i action ?ps)
                 (\<lambda>result. and_then
                    (emit_event ''action_executed'' (ActionExecuted i action ?ps result))
                    (\<lambda>_. returns result))"
  from assms(2)
  have "?body p = (Inr r, snd (emit_event ''action_executed'' (ActionExecuted i action ?ps r) q))"
    by (subst and_then_def) (simp add: returns_def)
  then have "try_except ?body
                (\<lambda>e. and_then (emit_event ''error'' (ErrorData (str e))) (\<lambda>_. returns False)) p
              = (Inr r, snd (emit_event ''action_executed'' (ActionExecuted i action ?ps r) q))"
    by (simp add: try_except_def)
  with assms(1) show ?thesis
    by (simp add: execute_action_def Let_def)
qed

lemma execute_action_returns:
  "\<exists>r. fst (execute_action impl i action parameters p) = Inr r"
proof (cases "has_key (devices p) i")
  case False
  then show ?thesis by (auto simp: execute_action_unknown)
next
  case True
  let ?ps = "case parameters of None \<Rightarrow> [] | Some ps \<Rightarrow> ps"
  show ?thesis
  proof (cases "impl i action ?ps p")
    case (Pair x q)
    with True show ?thesis
      by (cases x) (auto simp: execute_action_caught execute_action_returned)
  qed
qed

lemma stop_returns:
  "(\<exists>r. fst (stop (class_of b) p) = Inr r) \<and> calls (snd (stop (class_of b) p)) = calls p"
  by (cases b)
    (auto simp: PhilipsHuePlugin_def XiaomiSensorsPlugin_def hue_stop_def xiaomi_stop_def
      try_except_def and_then_def returns_def set_status_def load_global_def raises_def
      modify_def)

lemma discover_devices_returns: "\<exists>r. fst (discover_devices (class_of b) now p) = Inr r"
  by (cases b)
    (simp_all add: PhilipsHuePlugin_def XiaomiSensorsPlugin_def hue_discover_devices_def
      xiaomi_discover_devices_def try_except_returns)

lemma hue_initialize_no_credentials:
  "''asyncio'' \<in> set g \<Longrightarrow> map_of (attrs p) ''bridge_ip'' = Some ip
   \<Longrightarrow> map_of (attrs p) ''username'' = Some u \<Longrightarrow> \<not> (truthy ip \<and> truthy u)
   \<Longrightarrow> hue_initialize g p = (Inr False, p)"
  by (auto simp: hue_initialize_def try_except_def load_global_def attr_def and_then_def
      returns_def)

lemma xiaomi_initialize_no_credentials:
  "''asyncio'' \<in> set g \<Longrightarrow> map_of (attrs p) ''gateway_ip'' = Some ip
   \<Longrightarrow> map_of (attrs p) ''gateway_token'' = Some u \<Longrightarrow> \<not> (truthy ip \<and> truthy u)
   \<Longrightarrow> xiaomi_initialize g p = (Inr False, p)"
  by (auto simp: xiaomi_initialize_def try_except_def load_global_def attr_def and_then_def
      returns_def)

section \<open>Facts about the manager\<close>

lemma update_new_key: "\<not> has_key al k \<Longrightarrow> AList.update k v al = al @ [(k, v)]"
  by (induction al) (auto simp: has_key_def)

lemma discover_each_Cons:
  "discover_each now ((n, c, p) # rest) all_devices out =
     (let r = fst (discover_devices c now p);
          d = discover_each now rest
                (AList.update n (case r of Inl e \<Rightarrow> [] | Inr found \<Rightarrow> found) all_devices)
                (case r of
                   Inl e \<Rightarrow> out @ [''Failed to discover devices for plugin '' @ n @ '': '' @ str e]
                 | Inr found \<Rightarrow> out)
      in ((n, c, snd (discover_devices c now p)) # fst d, snd d))"
  by (cases "discover_devices c now p")
    (simp add: Let_def split: sum.splits prod.splits)

lemma discover_each_plugins:
  "fst (discover_each now ps all_devices out)
     = map (\<lambda>(n, c, p). (n, c, snd (discover_devices c now p))) ps"
proof (induction ps arbitrary: all_devices out)
  case Nil
  show ?case by simp
next
  case (Cons entry ps)
  obtain n c p where e: "entry = (n, c, p)" by (cases entry)
  show ?case
    unfolding e by (subst discover_each_Cons) (simp add: Let_def Cons.IH)
qed

lemma discover_each_all_devices:
  assumes "distinct (map fst ps)" and "\<forall>n \<in> set (map fst ps). \<not> has_key all_devices n"
  shows "fst (snd (discover_each now ps all_devices out))
     = all_devices @ map (\<lambda>(n, c, p). (n, case fst (discover_devices c now p) of
                                             Inl e \<Rightarrow> [] | Inr found \<Rightarrow> found)) ps"
  using assms
proof (induction ps arbitrary: all_devices out)
  case Nil
  show ?case by simp
next
  case (Cons entry ps)
  obtain n c p where e: "entry = (n, c, p)" by (cases entry)
  from Cons.prems e have new: "\<not> has_key all_devices n" and d: "distinct (map fst ps)"
    and rest: "\<forall>k \<in> set (map fst ps). \<not> has_key (all_devices @ [(n, v)]) k" for v
    by (auto simp: has_key_def)
  show ?case
    unfolding e
    by (subst discover_each_Cons) (simp add: Let_def update_new_key [OF new] Cons.IH [OF d rest])
qed

lemma and_then_Inr: "fst (f p) = Inr a \<Longrightarrow> and_then f g p = g a (snd (f p))"
  by (cases "f p") (simp add: and_then_def)

lemma add_device_fst: "fst (add_device d p) = Inr True"
  by (simp add: add_device_eq)

lemma update_device_state_fst:
  "fst (update_device_state now i props p) = Inr (has_key (devices p) i)"
  by (cases "has_key (devices p) i")
    (simp_all add: update_device_state_known update_device_state_unknown)

lemma hue_register_fst: "fst (hue_register now ds p) = Inr ()"
proof (induction ds arbitrary: p)
  case Nil
  show ?case by (simp add: returns_def)
next
  case (Cons d ds)
  show ?case
    by (simp add: and_then_Inr [OF add_device_fst] and_then_Inr [OF update_device_state_fst]
        Cons.IH)
qed

lemma hue_discover_devices_fst:
  assumes "map_of (attrs p) ''bridge_ip'' = Some ip"
  shows "fst (hue_discover_devices now p) = Inr (hue_devices ip)"
proof -
  from assms have a: "fst (attr ''bridge_ip'' p) = Inr ip" and s: "snd (attr ''bridge_ip'' p) = p"
    by (simp_all add: attr_def returns_def)
  have "and_then (attr ''bridge_ip'')
          (\<lambda>bridge_ip. and_then (hue_register now (hue_devices bridge_ip))
             (\<lambda>_. returns (hue_devices bridge_ip))) p
        = (Inr (hue_devices ip), snd (hue_register now (hue_devices ip) p))"
    by (simp add: and_then_Inr [where f = "attr ''bridge_ip''" and p = p, OF a] s
        and_then_Inr [OF hue_register_fst] returns_def)
  then show ?thesis
    by (simp add: hue_discover_devices_def try_except_def)
qed

lemma count_key:
  "distinct (map fst al) \<Longrightarrow> has_key al k \<Longrightarrow> length (filter (\<lambda>e. fst e = k) al) = 1"
proof (induction al)
  case Nil
  then show ?case by (simp add: has_key_def)
next
  case (Cons a al)
  show ?case
  proof (cases "fst a = k")
    case True
    have "k \<notin> fst ` set xs \<Longrightarrow> filter (\<lambda>e. fst e = k) xs = []"
      for xs :: "('a \<times> 'b) list"
      by (induction xs) auto
    with Cons.prems True have "filter (\<lambda>e. fst e = k) al = []"
      by simp
    with True show ?thesis by simp
  next
    case False
    with Cons show ?thesis by (auto simp: has_key_def)
  qed
qed

lemma load_plugin_loaded:
  "has_key (plugins m) n
   \<Longrightarrow> load_plugin n cfg m = (True, print (''Plugin '' @ n @ '' already loaded'') m)"
  by (simp add: load_plugin_def)

lemma load_plugin_result:
  "(fst (load_plugin n cfg m) \<longrightarrow> has_key (plugins (snd (load_plugin n cfg m))) n)
   \<and> (\<not> fst (load_plugin n cfg m) \<longrightarrow> plugins (snd (load_plugin n cfg m)) = plugins m)
   \<and> (distinct (map fst (plugins m)) \<longrightarrow> distinct (map fst (plugins (snd (load_plugin n cfg m)))))"
  by (auto simp: load_plugin_def print_def Let_def has_key_def dom_update distinct_update
      split: sum.splits prod.splits bool.splits)

section \<open>Example inputs\<close>

definition lamp :: device_info where
  "lamp = \<lparr>dev_id = ''lamp'', dev_name = ''Desk lamp'', manufacturer = None, model = None,
            firmware_version = None, capabilities = [ON_OFF], dev_properties = [],
            room = Some ''office''\<rparr>"

definition lamp_renamed :: device_info where
  "lamp_renamed = lamp\<lparr>dev_name := ''Floor lamp''\<rparr>"

text \<open>A subscriber that returns, and one that raises; neither touches the subscriber list.\<close>

definition listener :: "nat \<Rightarrow> handler" where
  "listener i = Handler i [] None"

definition failing_listener :: "nat \<Rightarrow> handler" where
  "failing_listener i = Handler i [] (Some (Raised ''boom''))"

text \<open>A subscriber that registers subscriber 2 when it runs.\<close>

definition recruiter :: handler where
  "recruiter = Handler 1 [AddHandler (listener 2)] None"

text \<open>A subscriber that removes itself when it runs, and then raises.\<close>

definition one_shot :: handler where
  "one_shot = Handler 1 [RemoveHandler 1] (Some (Raised ''boom''))"

definition fresh_plugin :: plugin where
  "fresh_plugin = BasePlugin_init philips_hue_info None"

text \<open>A run of a Philips Hue instance, from clock reading 10.\<close>

definition lamp_ops :: "operation list" where
  "lamp_ops = [AddDevice lamp, UpdateState ''lamp'' [(''power'', VBool False), (''brightness'', VInt 0)], Wait 5]"

definition sensor :: device_info where
  "sensor = lamp\<lparr>dev_id := ''sensor'', dev_name := ''Door sensor''\<rparr>"

lemma lamp_run:
  "run Hue lamp_ops (10, PhilipsHuePlugin_init (Some [])) =
     (15, (PhilipsHuePlugin_init (Some []))
            \<lparr>devices := [(''lamp'', lamp)],
             device_states := [(''lamp'', \<lparr>device_id = ''lamp'',
                 properties = [(''power'', VBool False), (''brightness'', VInt 0)],
                 last_updated = 10, online = True\<rparr>)]\<rparr>)"
  by (simp add: run_def lamp_ops_def add_device_eq update_device_state_known
      emit_event_no_handlers has_key_def PhilipsHuePlugin_init_def BasePlugin_init_def lamp_def)

definition lamp_plugin :: plugin where
  "lamp_plugin = snd (run Hue lamp_ops (10, PhilipsHuePlugin_init (Some [])))"

lemma lamp_plugin_eq:
  "lamp_plugin = (PhilipsHuePlugin_init (Some []))
            \<lparr>devices := [(''lamp'', lamp)],
             device_states := [(''lamp'', \<lparr>device_id = ''lamp'',
                 properties = [(''power'', VBool False), (''brightness'', VInt 0)],
                 last_updated = 10, online = True\<rparr>)]\<rparr>"
  by (simp add: lamp_plugin_def lamp_run)

definition later_ops :: "operation list" where
  "later_ops = [Subscribe (listener 1), UpdateState ''lamp'' [], Wait 1, Discover]"

text \<open>An action implementation that cannot reach its bridge.\<close>

definition unreachable_bridge :: "string \<Rightarrow> string \<Rightarrow> pydict \<Rightarrow> bool body" where
  "unreachable_bridge i action parameters = raises (Raised ''bridge unreachable'')"

text \<open>
  Two classes an application could register: one whose discovery raises, one whose
  \<^verbatim>\<open>initialize\<close> succeeds; a manager holding a broken and a healthy instance, and a
  manager that knows the working class under the name \<^verbatim>\<open>demo\<close>.
\<close>

definition broken_class :: plugin_class where
  "broken_class = PhilipsHuePlugin\<lparr>discover_devices := (\<lambda>now. raises (Raised ''gateway timeout''))\<rparr>"

definition working_class :: plugin_class where
  "working_class = PhilipsHuePlugin\<lparr>initialize := returns True\<rparr>"

definition two_plugins :: manager where
  "two_plugins = (PluginManager_init None)
     \<lparr>plugins := [(''broken'', broken_class, PhilipsHuePlugin_init None),
                  (''philips_hue'', PhilipsHuePlugin, PhilipsHuePlugin_init None)]\<rparr>"

definition demo_manager :: manager where
  "demo_manager = (PluginManager_init None)
     \<lparr>plugin_classes := AList.update ''demo'' working_class
                          (plugin_classes (PluginManager_init None))\<rparr>"

section \<open>The claims\<close>

text \<open>
  C1, as the code has it. \<^verbatim>\<open>execute_action\<close> returns false, touching nothing, for an
  unknown device id; an exception of the integration's action implementation is caught,
  the subscribers get an \<^verbatim>\<open>error\<close> event with its message, and the call returns false;
  no call of \<^verbatim>\<open>execute_action\<close> raises. \<^verbatim>\<open>stop\<close> and \<^verbatim>\<open>discover_devices\<close> of the
  built-in classes return a value on every object, and \<^verbatim>\<open>stop\<close> calls no subscriber.
  \<^verbatim>\<open>initialize\<close> of a built-in class returns false when the address or the credential
  is missing (empty), and leaves the object, its status included, as it was.
\<close>

theorem contract_fault_isolation:
  "(\<not> has_key (devices p) i \<longrightarrow> execute_action impl i action parameters p = (Inr False, p))
   \<and> (has_key (devices p) i \<longrightarrow>
        impl i action (case parameters of None \<Rightarrow> [] | Some ps \<Rightarrow> ps) p = (Inl e, q) \<longrightarrow>
        execute_action impl i action parameters p
          = (Inr False, snd (emit_event ''error'' (ErrorData (str e)) q)))
   \<and> (\<exists>r. fst (execute_action impl i action parameters p) = Inr r)
   \<and> (\<exists>r. fst (stop (class_of b) p) = Inr r)
   \<and> calls (snd (stop (class_of b) p)) = calls p
   \<and> (\<exists>r. fst (discover_devices (class_of b) now p) = Inr r)
   \<and> (map_of (attrs p) ''bridge_ip'' = Some ip \<longrightarrow> map_of (attrs p) ''username'' = Some u \<longrightarrow>
        \<not> (truthy ip \<and> truthy u) \<longrightarrow> initialize PhilipsHuePlugin p = (Inr False, p))
   \<and> (map_of (attrs p) ''gateway_ip'' = Some ip \<longrightarrow> map_of (attrs p) ''gateway_token'' = Some u \<longrightarrow>
        \<not> (truthy ip \<and> truthy u) \<longrightarrow> initialize XiaomiSensorsPlugin p = (Inr False, p))"
proof (intro conjI impI)
  show "\<exists>r. fst (execute_action impl i action parameters p) = Inr r"
    by (rule execute_action_returns)
  show "\<exists>r. fst (stop (class_of b) p) = Inr r" and "calls (snd (stop (class_of b) p)) = calls p"
    using stop_returns [of b p] by simp_all
  show "\<exists>r. fst (discover_devices (class_of b) now p) = Inr r"
    by (rule discover_devices_returns)
qed (simp_all add: execute_action_unknown execute_action_caught PhilipsHuePlugin_def
    XiaomiSensorsPlugin_def hue_initialize_no_credentials xiaomi_initialize_no_credentials
    philips_hue_globals_def xiaomi_sensors_globals_def)

theorem contract_fault_isolation_witness:
  "has_key (devices (add_event_handler (listener 1) lamp_plugin)) ''lamp''
   \<and> unreachable_bridge ''lamp'' ''turn_on'' [] (add_event_handler (listener 1) lamp_plugin)
       = (Inl (Raised ''bridge unreachable''), add_event_handler (listener 1) lamp_plugin)
   \<and> fst (execute_action unreachable_bridge ''lamp'' ''turn_on'' None
            (add_event_handler (listener 1) lamp_plugin)) = Inr False
   \<and> map (\<lambda>c. (fst c, ev_type (snd c), ev_data (snd c)))
        (calls (snd (execute_action unreachable_bridge ''lamp'' ''turn_on'' None
                       (add_event_handler (listener 1) lamp_plugin))))
      = [(1, ''error'', ErrorData ''bridge unreachable'')]
   \<and> map_of (attrs (PhilipsHuePlugin_init None)) ''bridge_ip'' = Some (VStr ''192.168.1.100'')
   \<and> map_of (attrs (PhilipsHuePlugin_init None)) ''username'' = Some (VStr [])
   \<and> initialize PhilipsHuePlugin (PhilipsHuePlugin_init None)
       = (Inr False, PhilipsHuePlugin_init None)"
proof -
  let ?p = "add_event_handler (listener 1) lamp_plugin"
  let ?e = "Raised ''bridge unreachable''"
  have k: "has_key (devices ?p) ''lamp''"
    by (simp add: lamp_plugin_eq add_event_handler_def has_key_def)
  have f: "unreachable_bridge ''lamp'' ''turn_on'' [] ?p = (Inl ?e, ?p)"
    by (simp add: unreachable_bridge_def raises_def)
  from contract_fault_isolation
      [where p = ?p and i = "''lamp''" and impl = unreachable_bridge and action = "''turn_on''"
         and parameters = None and e = ?e and q = ?p] k f
  have x: "execute_action unreachable_bridge ''lamp'' ''turn_on'' None ?p
           = (Inr False, snd (emit_event ''error'' (ErrorData (str ?e)) ?p))"
    by simp
  have c: "map (\<lambda>c. (fst c, ev_type (snd c), ev_data (snd c)))
             (calls (snd (emit_event ''error'' (ErrorData (str ?e)) ?p)))
           = [(1, ''error'', ErrorData ''bridge unreachable'')]"
    by (simp add: lamp_plugin_eq add_event_handler_def PhilipsHuePlugin_init_def
        BasePlugin_init_def emit_event_def emit_loop_unfold invoke_def listener_def
        make_event_def)
  have a: "map_of (attrs (PhilipsHuePlugin_init None)) ''bridge_ip'' = Some (VStr ''192.168.1.100'')"
    and u: "map_of (attrs (PhilipsHuePlugin_init None)) ''username'' = Some (VStr [])"
    by (simp_all add: PhilipsHuePlugin_init_def BasePlugin_init_def Let_def dict_get_def)
  from contract_fault_isolation
      [where p = "PhilipsHuePlugin_init None" and ip = "VStr ''192.168.1.100''"
         and u = "VStr []"] a u
  have i: "initialize PhilipsHuePlugin (PhilipsHuePlugin_init None)
           = (Inr False, PhilipsHuePlugin_init None)"
    by simp
  from k f x c a u i show ?thesis by simp
qed

text \<open>
  C1 as stated fails: \<^verbatim>\<open>initialize\<close> of a Philips Hue instance built without
  credentials fails, returning false, yet the status is still \<^verbatim>\<open>LOADED\<close> and the
  registered subscriber was never called, so there was no \<^verbatim>\<open>error\<close> event.
\<close>

theorem initialize_failure_counterexample:
  "map hid (event_handlers (add_event_handler (listener 1) (PhilipsHuePlugin_init None))) = [1]
   \<and> fst (initialize PhilipsHuePlugin (add_event_handler (listener 1) (PhilipsHuePlugin_init None)))
       = Inr False
   \<and> status (snd (initialize PhilipsHuePlugin
                     (add_event_handler (listener 1) (PhilipsHuePlugin_init None)))) = LOADED
   \<and> calls (snd (initialize PhilipsHuePlugin
                    (add_event_handler (listener 1) (PhilipsHuePlugin_init None)))) = []"
  by (simp add: PhilipsHuePlugin_def
      hue_initialize_no_credentials [where ip = "VStr ''192.168.1.100''" and u = "VStr []"]
      philips_hue_globals_def add_event_handler_def PhilipsHuePlugin_init_def
      BasePlugin_init_def Let_def dict_get_def listener_def)


text \<open>
  C2, as the code has it. \<^verbatim>\<open>add_device\<close> stores the descriptor under its id whether
  or not the id is registered, replacing the descriptor that was there, and returns true
  in both cases; the recorded states are left as they were, and the subscribers get
  \<^verbatim>\<open>device_added\<close>.
\<close>

theorem add_device_overwrites:
  "fst (add_device d p) = Inr True
   \<and> map_of (devices (snd (add_device d p))) = (map_of (devices p))(dev_id d \<mapsto> d)
   \<and> device_states (snd (add_device d p)) = device_states p
   \<and> snd (add_device d p) =
       snd (emit_event ''device_added'' (DeviceAdded d)
              (p\<lparr>devices := AList.update (dev_id d) d (devices p)\<rparr>))"
  by (simp add: add_device_eq emit_event_fields update_conv')

text \<open>
  C2 as stated fails: adding a second descriptor under the id of a registered device
  returns true and replaces the registered descriptor.
\<close>

theorem add_device_counterexample:
  "fst (add_device lamp_renamed (snd (add_device lamp fresh_plugin))) = Inr True
   \<and> map_of (devices (snd (add_device lamp fresh_plugin))) ''lamp'' = Some lamp
   \<and> map_of (devices (snd (add_device lamp_renamed (snd (add_device lamp fresh_plugin)))))
        ''lamp'' = Some lamp_renamed
   \<and> lamp_renamed \<noteq> lamp"
  by (simp add: add_device_eq emit_event_fields update_conv' lamp_renamed_def lamp_def)

text \<open>
  C3, as the code has it. When no subscriber changes the subscriber list while it runs,
  \<^verbatim>\<open>_emit_event\<close> returns normally after calling every registered subscriber exactly
  once, in registration order, with the event tagged with the plugin's name, and leaves
  the list as it was.
\<close>

theorem emit_event_quiet_subscribers:
  assumes "\<forall>h \<in> set (event_handlers p). hcalls h = []"
  shows "emit_event t d p =
           (Inr (), p\<lparr>calls := calls p @ map (\<lambda>h. (hid h, make_event p t d)) (event_handlers p)\<rparr>)"
proof -
  from emit_loop_quiet [OF assms, of "make_event p t d" 0]
  have "snd (emit_event t d p) =
          p\<lparr>calls := calls p @ map (\<lambda>h. (hid h, make_event p t d)) (event_handlers p)\<rparr>"
    by (simp add: emit_event_def)
  with emit_event_eq [of t d p] show ?thesis by simp
qed


theorem emit_event_quiet_subscribers_witness:
  "map hcalls (event_handlers (add_event_handler (failing_listener 2)
                                 (add_event_handler (listener 1) fresh_plugin))) = [[], []]
   \<and> map fst (calls (snd (emit_event ''device_removed'' (DeviceRemoved ''lamp'')
         (add_event_handler (failing_listener 2)
            (add_event_handler (listener 1) fresh_plugin))))) = [1, 2]"
  using emit_event_quiet_subscribers
    [of "add_event_handler (failing_listener 2) (add_event_handler (listener 1) fresh_plugin)"
        "''device_removed''" "DeviceRemoved ''lamp''"]
  by (simp add: add_event_handler_def fresh_plugin_def BasePlugin_init_def listener_def
      failing_listener_def)

text \<open>
  C3 as stated fails: the loop walks the list itself, not a copy made when the emission
  starts. A subscriber registered by a running subscriber is called in the same emission,
  although it was not registered when the emission started.
\<close>

theorem emit_event_snapshot_counterexample:
  "map hid (event_handlers (add_event_handler recruiter fresh_plugin)) = [1]
   \<and> map fst (calls (snd (emit_event ''device_removed'' (DeviceRemoved ''lamp'')
                            (add_event_handler recruiter fresh_plugin)))) = [1, 2]"
  by (simp add: emit_event_def emit_loop_unfold invoke_def add_event_handler_def
      fresh_plugin_def BasePlugin_init_def recruiter_def listener_def)

text \<open>
  C4, as the code has it. When no subscriber changes the subscriber list while it runs
  and subscriber \<open>k\<close> raises, the exception is caught: \<^verbatim>\<open>_emit_event\<close> returns
  normally, and for every later position \<open>j\<close> the \<open>j\<close>-th call of this emission goes
  to the subscriber registered at position \<open>j\<close>, with the event.
\<close>

theorem emit_event_isolates_failure:
  assumes "\<forall>h \<in> set (event_handlers p). hcalls h = []"
    and "k < length (event_handlers p)"
    and "hraises (event_handlers p ! k) = Some e"
  shows "fst (emit_event t d p) = Inr ()
         \<and> (\<forall>j. k < j \<and> j < length (event_handlers p) \<longrightarrow>
                calls (snd (emit_event t d p)) ! (length (calls p) + j)
                  = (hid (event_handlers p ! j), make_event p t d))
         \<and> length (calls (snd (emit_event t d p)))
             = length (calls p) + length (event_handlers p)"
proof -
  from emit_loop_quiet [OF assms(1), of "make_event p t d" 0]
  have "calls (snd (emit_event t d p)) =
          calls p @ map (\<lambda>h. (hid h, make_event p t d)) (event_handlers p)"
    by (simp add: emit_event_def)
  then show ?thesis
    by (simp add: emit_event_returns nth_append)
qed

theorem emit_event_isolates_failure_witness:
  "map hcalls (event_handlers (add_event_handler (listener 2)
                                 (add_event_handler (failing_listener 1) fresh_plugin))) = [[], []]
   \<and> hraises (event_handlers (add_event_handler (listener 2)
                 (add_event_handler (failing_listener 1) fresh_plugin)) ! 0)
        = Some (Raised ''boom'')
   \<and> fst (emit_event ''device_removed'' (DeviceRemoved ''lamp'')
            (add_event_handler (listener 2)
               (add_event_handler (failing_listener 1) fresh_plugin))) = Inr ()
   \<and> fst (calls (snd (emit_event ''device_removed'' (DeviceRemoved ''lamp'')
                        (add_event_handler (listener 2)
                           (add_event_handler (failing_listener 1) fresh_plugin)))) ! 1) = 2"
  using emit_event_isolates_failure
    [of "add_event_handler (listener 2) (add_event_handler (failing_listener 1) fresh_plugin)"
        0 "Raised ''boom''" "''device_removed''" "DeviceRemoved ''lamp''"]
  by (simp add: add_event_handler_def fresh_plugin_def BasePlugin_init_def listener_def
      failing_listener_def)

text \<open>
  C4 as stated fails: a subscriber that removes itself from the list and then raises
  makes the loop skip the subscriber registered after it.
\<close>

theorem emit_event_isolation_counterexample:
  "map hid (event_handlers (add_event_handler (listener 2)
                              (add_event_handler one_shot fresh_plugin))) = [1, 2]
   \<and> hraises one_shot = Some (Raised ''boom'')
   \<and> map fst (calls (snd (emit_event ''device_removed'' (DeviceRemoved ''lamp'')
         (add_event_handler (listener 2) (add_event_handler one_shot fresh_plugin))))) = [1]"
  by (simp add: emit_event_def emit_loop_unfold invoke_def add_event_handler_def
      remove_event_handler_def fresh_plugin_def BasePlugin_init_def one_shot_def listener_def)

text \<open>
  C5, on the code: \<^verbatim>\<open>start\<close> of a freshly constructed instance of either built-in
  class, whose status is \<^verbatim>\<open>LOADED\<close>, raises \<^verbatim>\<open>NameError\<close> to its caller and
  leaves the object as it was, the status still \<^verbatim>\<open>LOADED\<close> and not \<^verbatim>\<open>ERROR\<close>.
\<close>

theorem start_raises_and_leaves_loaded:
  "start PhilipsHuePlugin (PhilipsHuePlugin_init None)
     = (Inl (NameError ''PluginStatus''), PhilipsHuePlugin_init None)
   \<and> status (PhilipsHuePlugin_init None) = LOADED
   \<and> start XiaomiSensorsPlugin (XiaomiSensorsPlugin_init None)
     = (Inl (NameError ''PluginStatus''), XiaomiSensorsPlugin_init None)
   \<and> status (XiaomiSensorsPlugin_init None) = LOADED"
  by (simp add: PhilipsHuePlugin_def XiaomiSensorsPlugin_def hue_start_unbound
      xiaomi_start_unbound philips_hue_globals_def xiaomi_sensors_globals_def
      PhilipsHuePlugin_init_def XiaomiSensorsPlugin_init_def BasePlugin_init_def Let_def)



text \<open>
  C6. \<^verbatim>\<open>update_device_state\<close> returns false and leaves the object as it was when
  the id is not registered. When it is registered, the call returns true; the state
  recorded for the id is the supplied property map, as it is, stamped with the clock
  reading and online; the states of the other devices and the descriptors are untouched;
  and the object is left as the emission of \<^verbatim>\<open>state_changed\<close> with that state leaves it.
\<close>

theorem update_device_state_replaces:
  "(\<not> has_key (devices p) i \<longrightarrow> update_device_state now i props p = (Inr False, p))
   \<and> (has_key (devices p) i \<longrightarrow>
        fst (update_device_state now i props p) = Inr True
        \<and> get_device_state i (snd (update_device_state now i props p))
            = Some \<lparr>device_id = i, properties = props, last_updated = now, online = True\<rparr>
        \<and> (\<forall>j. j \<noteq> i \<longrightarrow> get_device_state j (snd (update_device_state now i props p))
                           = get_device_state j p)
        \<and> devices (snd (update_device_state now i props p)) = devices p
        \<and> snd (update_device_state now i props p)
            = snd (emit_event ''state_changed''
                     (StateChanged \<lparr>device_id = i, properties = props, last_updated = now,
                                    online = True\<rparr>)
                     (p\<lparr>device_states :=
                          AList.update i \<lparr>device_id = i, properties = props,
                                          last_updated = now, online = True\<rparr>
                            (device_states p)\<rparr>)))"
  by (simp add: update_device_state_unknown update_device_state_known emit_event_fields
      get_device_state_def update_conv')

theorem update_device_state_replaces_witness:
  "has_key (devices (add_event_handler (listener 1) lamp_plugin)) ''lamp''
   \<and> fst (update_device_state 15 ''lamp'' [(''power'', VBool True)]
            (add_event_handler (listener 1) lamp_plugin)) = Inr True
   \<and> get_device_state ''lamp''
        (snd (update_device_state 15 ''lamp'' [(''power'', VBool True)]
                (add_event_handler (listener 1) lamp_plugin)))
      = Some \<lparr>device_id = ''lamp'', properties = [(''power'', VBool True)],
               last_updated = 15, online = True\<rparr>
   \<and> map (\<lambda>c. (fst c, ev_type (snd c)))
        (calls (snd (update_device_state 15 ''lamp'' [(''power'', VBool True)]
                       (add_event_handler (listener 1) lamp_plugin))))
      = [(1, ''state_changed'')]
   \<and> \<not> has_key (devices (add_event_handler (listener 1) lamp_plugin)) ''sensor''
   \<and> update_device_state 15 ''sensor'' [(''power'', VBool True)]
        (add_event_handler (listener 1) lamp_plugin)
      = (Inr False, add_event_handler (listener 1) lamp_plugin)"
proof -
  let ?p = "add_event_handler (listener 1) lamp_plugin"
  let ?props = "[(''power'', VBool True)]"
  let ?st = "\<lparr>device_id = ''lamp'', properties = ?props, last_updated = 15, online = True\<rparr>"
  have k: "has_key (devices ?p) ''lamp''" and n: "\<not> has_key (devices ?p) ''sensor''"
    by (simp_all add: lamp_plugin_eq add_event_handler_def has_key_def)
  from update_device_state_replaces
      [where p = ?p and i = "''lamp''" and now = 15 and props = ?props] k
  have a: "fst (update_device_state 15 ''lamp'' ?props ?p) = Inr True"
    and b: "get_device_state ''lamp'' (snd (update_device_state 15 ''lamp'' ?props ?p)) = Some ?st"
    and c: "snd (update_device_state 15 ''lamp'' ?props ?p)
            = snd (emit_event ''state_changed'' (StateChanged ?st)
                     (?p\<lparr>device_states := AList.update ''lamp'' ?st (device_states ?p)\<rparr>))"
    by blast+
  have d: "map (\<lambda>c. (fst c, ev_type (snd c)))
             (calls (snd (emit_event ''state_changed'' (StateChanged ?st)
                (?p\<lparr>device_states := AList.update ''lamp'' ?st (device_states ?p)\<rparr>))))
           = [(1, ''state_changed'')]"
    by (simp add: lamp_plugin_eq add_event_handler_def PhilipsHuePlugin_init_def
        BasePlugin_init_def emit_event_def emit_loop_unfold invoke_def listener_def
        make_event_def)
  from update_device_state_replaces
      [where p = ?p and i = "''sensor''" and now = 15 and props = ?props] n
  have e: "update_device_state 15 ''sensor'' ?props ?p = (Inr False, ?p)"
    by blast
  from k n a b c d e show ?thesis by simp
qed


text \<open>
  C7. Take an instance of a built-in class at any moment of a run, the clock reading
  \<open>t\<close>. A device added under an id that is not registered has no state, and still has
  none after any further operations that do not update that id. Updating a registered
  device leaves exactly the supplied property map as its state, stamped \<open>t\<close>, which is
  not before the stamp of the state it replaces. After \<^verbatim>\<open>remove_device\<close> the id has no
  state, whether or not it was registered.
\<close>

theorem device_state_lifecycle:
  assumes "construct (class_of b) cfg = Inr p0" and "run b ops (t0, p0) = (t, p)"
  shows "(\<not> has_key (devices p) (dev_id d) \<longrightarrow>
            (\<forall>op \<in> set later. dev_id d \<notin> set (updated_ids b op)) \<longrightarrow>
            get_device_state (dev_id d) (snd (run b later (t, snd (add_device d p)))) = None)
         \<and> (has_key (devices p) i \<longrightarrow>
              get_device_state i (snd (update_device_state t i props p))
                = Some \<lparr>device_id = i, properties = props, last_updated = t, online = True\<rparr>
              \<and> (\<forall>old. get_device_state i p = Some old \<longrightarrow> last_updated old \<le> t))
         \<and> get_device_state i (snd (remove_device i p)) = None"
proof (intro conjI impI)
  from reached_ok [OF assms] have ok: "registry_ok t p" .
  {
    assume n: "\<not> has_key (devices p) (dev_id d)"
      and m: "\<forall>op \<in> set later. dev_id d \<notin> set (updated_ids b op)"
    from unregistered_absent [OF ok n]
    have "get_device_state (dev_id d) (snd (add_device d p)) = None"
      by (simp add: add_device_eq get_device_state_def emit_event_fields)
    from absent_run [OF this m]
    show "get_device_state (dev_id d) (snd (run b later (t, snd (add_device d p)))) = None" .
  }
  {
    assume k: "has_key (devices p) i"
    then show "get_device_state i (snd (update_device_state t i props p))
                = Some \<lparr>device_id = i, properties = props, last_updated = t, online = True\<rparr>"
      by (simp add: update_device_state_known get_device_state_def emit_event_fields
          update_conv')
    from registry_ok_state [OF ok]
    show "\<forall>old. get_device_state i p = Some old \<longrightarrow> last_updated old \<le> t" by blast
  }
  show "get_device_state i (snd (remove_device i p)) = None"
  proof (cases "has_key (devices p) i")
    case True
    then show ?thesis
      by (simp add: remove_device_known get_device_state_def emit_event_fields delete_conv')
  next
    case False
    with unregistered_absent [OF ok False] show ?thesis
      by (simp add: remove_device_unknown)
  qed
qed

theorem device_state_lifecycle_witness:
  "construct (class_of Hue) [] = Inr (PhilipsHuePlugin_init (Some []))
   \<and> run Hue lamp_ops (10, PhilipsHuePlugin_init (Some [])) = (15, lamp_plugin)
   \<and> \<not> has_key (devices lamp_plugin) (dev_id sensor)
   \<and> list_all (\<lambda>op. dev_id sensor \<notin> set (updated_ids Hue op)) later_ops
   \<and> get_device_state (dev_id sensor)
        (snd (run Hue later_ops (15, snd (add_device sensor lamp_plugin)))) = None
   \<and> has_key (devices lamp_plugin) ''lamp''
   \<and> map_option last_updated (get_device_state ''lamp'' lamp_plugin) = Some 10
   \<and> get_device_state ''lamp''
        (snd (update_device_state 15 ''lamp'' [(''power'', VBool True)] lamp_plugin))
      = Some \<lparr>device_id = ''lamp'', properties = [(''power'', VBool True)],
               last_updated = 15, online = True\<rparr>
   \<and> get_device_state ''lamp'' (snd (remove_device ''lamp'' lamp_plugin)) = None"
proof -
  have c: "construct (class_of Hue) [] = Inr (PhilipsHuePlugin_init (Some []))"
    by (simp add: PhilipsHuePlugin_def)
  have r: "run Hue lamp_ops (10, PhilipsHuePlugin_init (Some [])) = (15, lamp_plugin)"
    by (simp add: lamp_run lamp_plugin_eq)
  have n: "\<not> has_key (devices lamp_plugin) (dev_id sensor)"
    and k: "has_key (devices lamp_plugin) ''lamp''"
    and o: "map_option last_updated (get_device_state ''lamp'' lamp_plugin) = Some 10"
    by (simp_all add: lamp_plugin_eq has_key_def sensor_def get_device_state_def)
  have l: "list_all (\<lambda>op. dev_id sensor \<notin> set (updated_ids Hue op)) later_ops"
    by (simp add: later_ops_def sensor_def)
  then have l': "\<forall>op \<in> set later_ops. dev_id sensor \<notin> set (updated_ids Hue op)"
    by (simp add: list_all_iff)
  from device_state_lifecycle [OF c r, where d = sensor and later = later_ops
      and i = "''lamp''" and props = "[(''power'', VBool True)]"] n l' k
  have "get_device_state (dev_id sensor)
          (snd (run Hue later_ops (15, snd (add_device sensor lamp_plugin)))) = None"
    and "get_device_state ''lamp''
          (snd (update_device_state 15 ''lamp'' [(''power'', VBool True)] lamp_plugin))
        = Some \<lparr>device_id = ''lamp'', properties = [(''power'', VBool True)],
                 last_updated = 15, online = True\<rparr>"
    and "get_device_state ''lamp'' (snd (remove_device ''lamp'' lamp_plugin)) = None"
    by blast+
  with c r n l k o show ?thesis by simp
qed


text \<open>
  C8. \<^verbatim>\<open>discover_all_devices\<close> returns one entry for each loaded instance, in the
  order of the dictionary: the empty list when that instance's \<^verbatim>\<open>discover_devices\<close>
  raised, and what it returned otherwise, whatever the other instances did. Every
  instance is left as its own call of \<^verbatim>\<open>discover_devices\<close> left it.
\<close>

theorem discover_all_devices_isolates:
  assumes "distinct (map fst (plugins m))"
  shows "fst (discover_all_devices now m)
           = map (\<lambda>(n, c, p). (n, case fst (discover_devices c now p) of
                                     Inl e \<Rightarrow> [] | Inr found \<Rightarrow> found)) (plugins m)
         \<and> plugins (snd (discover_all_devices now m))
           = map (\<lambda>(n, c, p). (n, c, snd (discover_devices c now p))) (plugins m)"
proof -
  have "\<forall>n \<in> set (map fst (plugins m)). \<not> has_key [] n" by (simp add: has_key_def)
  from discover_each_all_devices [OF assms this, of now "stdout m"]
    discover_each_plugins [of now "plugins m" "[]" "stdout m"]
  show ?thesis
    by (cases "discover_each now (plugins m) [] (stdout m)")
      (simp add: discover_all_devices_def)
qed

theorem discover_all_devices_isolates_witness:
  "distinct (map fst (plugins two_plugins))
   \<and> fst (discover_devices broken_class 20 (PhilipsHuePlugin_init None))
       = Inl (Raised ''gateway timeout'')
   \<and> map (\<lambda>entry. (fst entry, map dev_id (snd entry))) (fst (discover_all_devices 20 two_plugins))
       = [(''broken'', []), (''philips_hue'', [''hue_light_001'', ''hue_light_002''])]"
proof -
  have d: "distinct (map fst (plugins two_plugins))"
    by (simp add: two_plugins_def)
  have b: "fst (discover_devices broken_class 20 (PhilipsHuePlugin_init None))
            = Inl (Raised ''gateway timeout'')"
    by (simp add: broken_class_def raises_def)
  have h: "fst (discover_devices PhilipsHuePlugin 20 (PhilipsHuePlugin_init None))
            = Inr (hue_devices (VStr ''192.168.1.100''))"
    by (simp add: PhilipsHuePlugin_def,
        rule hue_discover_devices_fst)
      (simp add: PhilipsHuePlugin_init_def BasePlugin_init_def Let_def dict_get_def)
  from discover_all_devices_isolates [OF d, of 20] b h
  have "fst (discover_all_devices 20 two_plugins)
          = [(''broken'', []), (''philips_hue'', hue_devices (VStr ''192.168.1.100''))]"
    by (simp add: two_plugins_def)
  with d b show ?thesis by (simp add: hue_devices_def)
qed

text \<open>
  C9, as the code has it. When \<^verbatim>\<open>load_plugin\<close> returns true, a second call for the
  same name, with any configuration, returns true and changes nothing but the output
  (it prints that the plugin is already loaded: no construction, no \<^verbatim>\<open>initialize\<close>),
  and exactly one instance is stored under the name. When it returns false, the loaded
  instances are as they were.
\<close>

theorem load_plugin_idempotent:
  assumes "distinct (map fst (plugins m))"
  shows "(fst (load_plugin n cfg m) \<longrightarrow>
            load_plugin n cfg' (snd (load_plugin n cfg m))
              = (True, print (''Plugin '' @ n @ '' already loaded'') (snd (load_plugin n cfg m)))
            \<and> length (filter (\<lambda>e. fst e = n) (plugins (snd (load_plugin n cfg m)))) = 1)
         \<and> (\<not> fst (load_plugin n cfg m) \<longrightarrow>
              plugins (snd (load_plugin n cfg m)) = plugins m)"
  using load_plugin_result [of n cfg m] assms
  by (auto simp: load_plugin_loaded count_key)

theorem load_plugin_idempotent_witness:
  "distinct (map fst (plugins demo_manager))
   \<and> fst (load_plugin ''demo'' None demo_manager)
   \<and> fst (load_plugin ''demo'' None (snd (load_plugin ''demo'' None demo_manager)))
   \<and> map fst (plugins (snd (load_plugin ''demo'' None
                               (snd (load_plugin ''demo'' None demo_manager))))) = [''demo'']
   \<and> length (filter (\<lambda>e. fst e = ''demo'')
               (plugins (snd (load_plugin ''demo'' None demo_manager)))) = 1"
proof -
  have d: "distinct (map fst (plugins demo_manager))"
    by (simp add: demo_manager_def PluginManager_init_def)
  have f: "fst (load_plugin ''demo'' None demo_manager)"
    and k: "map fst (plugins (snd (load_plugin ''demo'' None demo_manager))) = [''demo'']"
    by (simp_all add: load_plugin_def demo_manager_def PluginManager_init_def has_key_def
        subscript_def working_class_def PhilipsHuePlugin_def returns_def print_def Let_def)
  from load_plugin_idempotent [OF d, of "''demo''" None None] f
  have "load_plugin ''demo'' None (snd (load_plugin ''demo'' None demo_manager))
          = (True, print (''Plugin demo already loaded'')
                     (snd (load_plugin ''demo'' None demo_manager)))"
    and "length (filter (\<lambda>e. fst e = ''demo'')
                  (plugins (snd (load_plugin ''demo'' None demo_manager)))) = 1"
    by simp_all
  with d f k show ?thesis by (simp add: print_def)
qed

text \<open>
  C9 as stated fails: with the default configuration the built-in Philips Hue class
  does not initialize, so both calls return false and nothing is stored; so does a name
  no class is registered under.
\<close>

theorem load_plugin_counterexample:
  "fst (load_plugin ''philips_hue'' None (PluginManager_init None)) = False
   \<and> plugins (snd (load_plugin ''philips_hue'' None (PluginManager_init None))) = []
   \<and> fst (load_plugin ''philips_hue'' None
            (snd (load_plugin ''philips_hue'' None (PluginManager_init None)))) = False
   \<and> fst (load_plugin ''nobody'' None (PluginManager_init None)) = False"
  by (simp add: load_plugin_def PluginManager_init_def has_key_def subscript_def
      PhilipsHuePlugin_def print_def Let_def
      hue_initialize_no_credentials [where ip = "VStr ''192.168.1.100''" and u = "VStr []"]
      philips_hue_globals_def PhilipsHuePlugin_init_def BasePlugin_init_def dict_get_def)


text \<open>
  C10. At any moment of a run of an instance of a built-in class, every recorded state
  is online, and the online count of \<^verbatim>\<open>health_check\<close> is the number of devices that
  have a recorded state.
\<close>

theorem stored_states_online:
  assumes "construct (class_of b) cfg = Inr p0" and "run b ops (t0, p0) = (t, p)"
  shows "(\<forall>s \<in> snd ` set (device_states p). online s)
         \<and> online_devices (health_check p) = card (fst ` set (device_states p))"
proof -
  from reached_ok [OF assms] have ok: "registry_ok t p" .
  then have a: "\<forall>s \<in> snd ` set (device_states p). online s"
    by (auto simp: registry_ok_def list_all_iff)
  then have "filter online (map snd (device_states p)) = map snd (device_states p)"
    by (simp add: filter_id_conv)
  moreover from ok have "card (fst ` set (device_states p)) = length (device_states p)"
    using distinct_card [of "map fst (device_states p)"] by (simp add: registry_ok_def)
  ultimately show ?thesis using a by (simp add: health_check_def)
qed

theorem stored_states_online_witness:
  "construct (class_of Hue) [] = Inr (PhilipsHuePlugin_init (Some []))
   \<and> run Hue lamp_ops (10, PhilipsHuePlugin_init (Some [])) = (15, lamp_plugin)
   \<and> map (online \<circ> snd) (device_states lamp_plugin) = [True]
   \<and> online_devices (health_check lamp_plugin) = card (fst ` set (device_states lamp_plugin))
   \<and> online_devices (health_check lamp_plugin) = 1"
proof -
  have c: "construct (class_of Hue) [] = Inr (PhilipsHuePlugin_init (Some []))"
    by (simp add: PhilipsHuePlugin_def)
  have r: "run Hue lamp_ops (10, PhilipsHuePlugin_init (Some [])) = (15, lamp_plugin)"
    by (simp add: lamp_run lamp_plugin_eq)
  from stored_states_online [OF c r]
  have "online_devices (health_check lamp_plugin) = card (fst ` set (device_states lamp_plugin))"
    by blast
  moreover have "map (online \<circ> snd) (device_states lamp_plugin) = [True]"
    and "online_devices (health_check lamp_plugin) = 1"
    by (simp_all add: lamp_plugin_eq health_check_def)
  ultimately show ?thesis using c r by simp
qed


end
